theory Spec2Isabelle
  imports Complex_Main
begin

section \<open>Neon Hand Control: gesture classifier, stroke accumulators, orchestrator\<close>

text \<open>
  A shallow embedding of the gesture classifier (\<^verbatim>\<open>core/gestureDetector.ts\<close>), the 2D
  stroke accumulator (\<^verbatim>\<open>drawing/canvas2D.ts\<close>), the 3D stroke accumulator
  (\<^verbatim>\<open>three/neonLine3D.ts\<close>, \<^verbatim>\<open>three/scene.ts\<close>, \<^verbatim>\<open>three/depthController.ts\<close>) and
  the orchestrator (\<^verbatim>\<open>main.ts\<close>).

  Conventions of the embedding:
  \<^item> a JavaScript \<^verbatim>\<open>number\<close> is a \<^typ>\<open>real\<close>: arithmetic is exact, and the values
    \<^verbatim>\<open>NaN\<close> and \<^verbatim>\<open>Infinity\<close> are not represented;
  \<^item> reading a property of \<^verbatim>\<open>undefined\<close> (a landmark index beyond the array) throws a
    \<^verbatim>\<open>TypeError\<close>; a function that can throw returns \<open>error + 'a\<close>;
  \<^item> a mutable object is a record, a method takes the object and returns it updated;
  \<^item> field names that several classes share carry a prefix, since a record field is a
    global constant.
\<close>

subsection \<open>Configuration (\<^verbatim>\<open>core/config.ts\<close>)\<close>

definition pinchThreshold :: real where
  "pinchThreshold = 0.05"

definition fistThreshold :: real where
  "fistThreshold = 0.08"

definition spreadThreshold :: real where
  "spreadThreshold = 0.15"

definition depthSensitivity :: real where
  "depthSensitivity = 2.0"

definition smoothingFactor :: real where
  "smoothingFactor = 0.7"

definition minDistance :: real where
  "minDistance = 0.01"

definition canvas_width :: real where
  "canvas_width = 1280"

definition canvas_height :: real where
  "canvas_height = 720"

subsection \<open>Hand data (\<^verbatim>\<open>core/handTracker.ts\<close>)\<close>

datatype error = TypeError

record HandLandmark =
  lm_x :: real
  lm_y :: real
  lm_z :: real

datatype Handedness = Left | Right

record HandData =
  landmarks :: "HandLandmark list"
  handedness :: Handedness
  detectionConfidence :: real
  trackingConfidence :: real
  averageDepth :: real

text \<open>\<^verbatim>\<open>landmarks[i]\<close>: the element, or \<^verbatim>\<open>undefined\<close> beyond the end of the array.\<close>

definition lm_at :: "HandLandmark list \<Rightarrow> nat \<Rightarrow> HandLandmark option" where
  "lm_at lms i = (if i < length lms then Some (lms ! i) else None)"

text \<open>Sequencing of computations that may throw: the first exception wins.\<close>

definition bindE :: "error + 'a \<Rightarrow> ('a \<Rightarrow> error + 'b) \<Rightarrow> error + 'b" where
  "bindE m f = (case m of Inl e \<Rightarrow> Inl e | Inr v \<Rightarrow> f v)"

subsection \<open>Gesture classifier (\<^verbatim>\<open>core/gestureDetector.ts\<close>)\<close>

datatype Gesture = NONE | OPEN_HAND | CLOSED_FIST | PINCH | SPREAD_FINGERS

record Distances =
  d_pinch :: "real option"
  d_fist :: "real option"
  d_spread :: "real option"

record GestureState =
  gesture :: Gesture
  confidence :: real
  gs_isDrawing :: bool
  depth :: real
  metadata :: "Distances option"

record GestureDetector =
  previousGesture :: Gesture
  gestureHistory :: "Gesture list"

definition historySize :: nat where
  "historySize = 5"

definition GestureDetector_init :: GestureDetector where
  "GestureDetector_init = \<lparr>previousGesture = NONE, gestureHistory = []\<rparr>"

text \<open>
  \<^verbatim>\<open>calculateDistance(a, b)\<close>: the 3D Euclidean distance; \<^verbatim>\<open>a.x\<close> or \<^verbatim>\<open>b.x\<close> throws
  when the landmark is \<^verbatim>\<open>undefined\<close>.
\<close>

fun calculateDistance :: "HandLandmark option \<Rightarrow> HandLandmark option \<Rightarrow> error + real" where
  "calculateDistance (Some a) (Some b) =
     (let dx = lm_x a - lm_x b; dy = lm_y a - lm_y b; dz = lm_z a - lm_z b
      in Inr (sqrt (dx * dx + dy * dy + dz * dz)))"
| "calculateDistance _ _ = Inl TypeError"

text \<open>The results of the four detectors are pairs \<open>(confidence, distance)\<close>.\<close>

definition detectPinch :: "HandLandmark list \<Rightarrow> error + (real \<times> real)" where
  "detectPinch lms =
     (let thumbTip = lm_at lms 4; indexTip = lm_at lms 8
      in bindE (calculateDistance thumbTip indexTip) (\<lambda>distance.
           let normalizedDistance = distance / pinchThreshold;
               conf = max 0 (min 1 (1 - normalizedDistance))
           in Inr (conf, distance)))"

text \<open>\<^verbatim>\<open>fingerTips.map(tip => calculateDistance(wrist, tip))\<close>, left to right.\<close>

fun map_distances :: "HandLandmark option \<Rightarrow> HandLandmark option list \<Rightarrow> error + real list" where
  "map_distances w [] = Inr []"
| "map_distances w (t # ts) =
     bindE (calculateDistance w t) (\<lambda>d. bindE (map_distances w ts) (\<lambda>ds. Inr (d # ds)))"

definition detectFist :: "HandLandmark list \<Rightarrow> error + (real \<times> real)" where
  "detectFist lms =
     (let wrist = lm_at lms 0;
          fingerTips = [lm_at lms 4, lm_at lms 8, lm_at lms 12, lm_at lms 16, lm_at lms 20]
      in bindE (map_distances wrist fingerTips) (\<lambda>distances.
           let avgDistance = foldl (+) 0 distances / real (length distances);
               normalizedDistance = avgDistance / fistThreshold;
               conf = max 0 (min 1 (1 - normalizedDistance))
           in Inr (conf, avgDistance)))"

text \<open>The loop over \<open>i = 0, 1, 2\<close> pushes the distance of each adjacent pair of finger tips.\<close>

fun adjacent_distances :: "HandLandmark option list \<Rightarrow> error + real list" where
  "adjacent_distances (a # b # ts) =
     bindE (calculateDistance a b) (\<lambda>d. bindE (adjacent_distances (b # ts)) (\<lambda>ds. Inr (d # ds)))"
| "adjacent_distances _ = Inr []"

text \<open>
  \<^verbatim>\<open>Math.min(...distances)\<close>. The loop has pushed three distances; the value of the
  empty call (\<^verbatim>\<open>Infinity\<close>) is never asked for.
\<close>

fun Math_min :: "real list \<Rightarrow> real" where
  "Math_min [d] = d"
| "Math_min (d # ds) = min d (Math_min ds)"
| "Math_min [] = 0"

definition detectSpread :: "HandLandmark list \<Rightarrow> error + (real \<times> real)" where
  "detectSpread lms =
     (let fingerTips = [lm_at lms 8, lm_at lms 12, lm_at lms 16, lm_at lms 20]
      in bindE (adjacent_distances fingerTips) (\<lambda>distances.
           let minD = Math_min distances;
               normalizedDistance = minD / spreadThreshold;
               conf = max 0 (min 1 normalizedDistance)
           in Inr (conf, minD)))"

definition detectOpen :: "HandLandmark list \<Rightarrow> real \<Rightarrow> real \<Rightarrow> error + real" where
  "detectOpen lms fistConfidence pinchConfidence =
     (let combinedConfidence = (fistConfidence + pinchConfidence) / 2;
          conf = max 0 (1 - combinedConfidence);
          wrist = lm_at lms 0;
          middleTip = lm_at lms 12
      in bindE (calculateDistance wrist middleTip) (\<lambda>middleDistance.
           let extendedConfidence = min 1 (middleDistance / 0.15);
               finalConfidence = (conf + extendedConfidence) / 2
           in Inr finalConfidence))"

definition createState ::
  "Gesture \<Rightarrow> real \<Rightarrow> bool \<Rightarrow> real \<Rightarrow> Distances option \<Rightarrow> GestureState" where
  "createState g c isDrawing dpt md =
     \<lparr>gesture = g, confidence = c, gs_isDrawing = isDrawing, depth = dpt, metadata = md\<rparr>"

definition updateHistory :: "GestureDetector \<Rightarrow> Gesture \<Rightarrow> GestureDetector" where
  "updateHistory d g =
     (let h = gestureHistory d @ [g];
          h' = (if length h > historySize then tl h else h)
      in d\<lparr>gestureHistory := h', previousGesture := g\<rparr>)"

definition no_distances :: Distances where
  "no_distances = \<lparr>d_pinch = None, d_fist = None, d_spread = None\<rparr>"

text \<open>
  \<^verbatim>\<open>detect(handData)\<close> returns the gesture state together with the detector, whose history
  it has updated. The null case returns before the history is touched.
\<close>

definition detect ::
  "GestureDetector \<Rightarrow> HandData option \<Rightarrow> error + (GestureState \<times> GestureDetector)" where
  "detect d handData =
     (case handData of
        None \<Rightarrow> Inr (createState NONE 0 False 0.5 None, d)
      | Some h \<Rightarrow>
         (let lms = landmarks h; wrist = lm_at lms 0
          in bindE (detectPinch lms) (\<lambda>pinchResult.
             bindE (detectFist lms) (\<lambda>fistResult.
             bindE (detectSpread lms) (\<lambda>spreadResult.
             bindE (detectOpen lms (fst fistResult) (fst pinchResult)) (\<lambda>openResult.
               if fst pinchResult > 0.5 then
                 Inr (createState PINCH (fst pinchResult) True 0.5
                        (Some (no_distances\<lparr>d_pinch := Some (snd pinchResult)\<rparr>)),
                      updateHistory d PINCH)
               else if fst fistResult > 0.5 then
                 (case wrist of
                    None \<Rightarrow> Inl TypeError
                  | Some w \<Rightarrow>
                     (let normalizedDepth = 1 - lm_y w;
                          dpt = max 0 (min 1 (normalizedDepth * depthSensitivity))
                      in Inr (createState CLOSED_FIST (fst fistResult) True dpt
                                (Some (no_distances\<lparr>d_fist := Some (snd fistResult)\<rparr>)),
                              updateHistory d CLOSED_FIST)))
               else if fst spreadResult > 0.5 then
                 Inr (createState SPREAD_FINGERS (fst spreadResult) False 0.5
                        (Some (no_distances\<lparr>d_spread := Some (snd spreadResult)\<rparr>)),
                      updateHistory d SPREAD_FINGERS)
               else if openResult > 0.5 then
                 Inr (createState OPEN_HAND openResult False 0.5 None,
                      updateHistory d OPEN_HAND)
               else
                 Inr (createState NONE 0 False 0.5 None, updateHistory d NONE)))))))"

subsection \<open>2D stroke accumulator (\<^verbatim>\<open>drawing/canvas2D.ts\<close>)\<close>

record Point2D =
  px :: real
  py :: real

text \<open>
  The canvas pixels are abstracted to \<open>rendered\<close>, the polylines that \<^verbatim>\<open>drawNeonLine\<close> has
  stroked since the last \<^verbatim>\<open>clearRect\<close>. The brush style plays no part in what follows.
\<close>

record Canvas2D =
  c_lastPoint :: "Point2D option"
  c_isDrawing :: bool
  pointBuffer :: "Point2D list"
  smoothedPoints :: "Point2D list"
  rendered :: "Point2D list list"

definition bufferSize :: nat where
  "bufferSize = 5"

definition Canvas2D_init :: Canvas2D where
  "Canvas2D_init =
     \<lparr>c_lastPoint = None, c_isDrawing = False, pointBuffer = [], smoothedPoints = [],
      rendered = []\<rparr>"

definition drawNeonLine :: "Point2D list list \<Rightarrow> Point2D list \<Rightarrow> Point2D list list" where
  "drawNeonLine ctx pts = (if length pts < 2 then ctx else ctx @ [pts])"

definition Canvas2D_startDrawing :: "Canvas2D \<Rightarrow> Point2D \<Rightarrow> Canvas2D" where
  "Canvas2D_startDrawing c point =
     c\<lparr>c_isDrawing := True, c_lastPoint := Some point, pointBuffer := [point],
       smoothedPoints := [point]\<rparr>"

definition calculateMovingAverage :: "Point2D list \<Rightarrow> Point2D" where
  "calculateMovingAverage buf =
     (let sum = foldl (\<lambda>acc p. \<lparr>px = px acc + px p, py = py acc + py p\<rparr>) \<lparr>px = 0, py = 0\<rparr> buf
      in \<lparr>px = px sum / real (length buf), py = py sum / real (length buf)\<rparr>)"

definition Canvas2D_interpolate :: "Point2D \<Rightarrow> Point2D \<Rightarrow> real \<Rightarrow> Point2D" where
  "Canvas2D_interpolate a b factor =
     \<lparr>px = px a + (px b - px a) * factor, py = py a + (py b - py a) * factor\<rparr>"

definition weights :: "real list" where
  "weights = [0.1, 0.3, 0.6]"

text \<open>\<^verbatim>\<open>weights[k] || 0.6\<close>: the fallback applies beyond the end of the array.\<close>

definition weight_at :: "nat \<Rightarrow> real" where
  "weight_at k = (if k < length weights then weights ! k else 0.6)"

text \<open>
  The loop of \<^verbatim>\<open>cubicInterpolate\<close> over the buffer from \<open>startIdx\<close> on: \<open>k\<close> is
  \<open>i - startIdx\<close>, the accumulator is \<open>(weightedX, weightedY, totalWeight)\<close>.
\<close>

fun weighted_loop :: "Point2D list \<Rightarrow> nat \<Rightarrow> real \<times> real \<times> real \<Rightarrow> real \<times> real \<times> real" where
  "weighted_loop [] k acc = acc"
| "weighted_loop (p # ps) k (weightedX, weightedY, totalWeight) =
     (let weight = weight_at k
      in weighted_loop ps (Suc k)
           (weightedX + px p * weight, weightedY + py p * weight, totalWeight + weight))"

text \<open>
  The private smoothing methods read \<^verbatim>\<open>this.pointBuffer\<close> and \<^verbatim>\<open>this.lastPoint\<close>; their
  only caller \<^verbatim>\<open>drawTo\<close> has checked that the last point is not null, so they take the
  buffer and that point as arguments. \<open>length buf - 3\<close> on \<^typ>\<open>nat\<close> is
  \<^verbatim>\<open>Math.max(0, length - 3)\<close>.
\<close>

definition cubicInterpolate :: "Point2D list \<Rightarrow> Point2D \<Rightarrow> Point2D" where
  "cubicInterpolate buf point =
     (if length buf < 3 then point
      else
        (let startIdx = length buf - 3;
             (weightedX, weightedY, totalWeight) = weighted_loop (drop startIdx buf) 0 (0, 0, 0);
             smoothed = \<lparr>px = weightedX / totalWeight, py = weightedY / totalWeight\<rparr>
         in Canvas2D_interpolate smoothed point 0.7))"

definition applySmoothing :: "Point2D list \<Rightarrow> Point2D \<Rightarrow> Point2D \<Rightarrow> Point2D" where
  "applySmoothing buf lastPoint point =
     (if length buf = 1 then point
      else
        (let avgPoint = calculateMovingAverage buf;
             interpolatedPoint = Canvas2D_interpolate lastPoint avgPoint smoothingFactor
         in if length buf \<ge> bufferSize then cubicInterpolate buf interpolatedPoint
            else interpolatedPoint))"

definition getDistance :: "Point2D \<Rightarrow> Point2D \<Rightarrow> real" where
  "getDistance a b =
     (let dx = px b - px a; dy = py b - py a in sqrt (dx * dx + dy * dy))"

text \<open>\<^verbatim>\<open>this.pointBuffer.push(point)\<close>, then one \<^verbatim>\<open>shift()\<close> when the buffer is over its size.\<close>

definition push_point :: "Point2D list \<Rightarrow> Point2D \<Rightarrow> Point2D list" where
  "push_point buf point =
     (let pushed = buf @ [point]
      in if length pushed > bufferSize then tl pushed else pushed)"

definition Canvas2D_drawTo :: "Canvas2D \<Rightarrow> Point2D \<Rightarrow> Canvas2D" where
  "Canvas2D_drawTo c point =
     (case c_lastPoint c of
        None \<Rightarrow> c
      | Some lastPoint \<Rightarrow>
          if \<not> c_isDrawing c then c
          else
            (let buf = push_point (pointBuffer c) point;
                 smoothedPoint = applySmoothing buf lastPoint point;
                 distance = getDistance lastPoint smoothedPoint
             in if distance < minDistance then c\<lparr>pointBuffer := buf\<rparr>
                else
                  (let sp = smoothedPoints c @ [smoothedPoint]
                   in c\<lparr>pointBuffer := buf, smoothedPoints := sp,
                        rendered := (if length sp \<ge> 2 then drawNeonLine (rendered c) sp
                                     else rendered c),
                        c_lastPoint := Some smoothedPoint\<rparr>)))"

definition Canvas2D_stopDrawing :: "Canvas2D \<Rightarrow> Canvas2D" where
  "Canvas2D_stopDrawing c =
     c\<lparr>rendered := (if c_isDrawing c \<and> length (smoothedPoints c) > 0
                      then (if length (smoothedPoints c) \<ge> 2
                            then drawNeonLine (rendered c) (smoothedPoints c)
                            else rendered c)
                      else rendered c),
       c_isDrawing := False, c_lastPoint := None, pointBuffer := [], smoothedPoints := []\<rparr>"

definition normalizeToCanvas :: "real \<Rightarrow> real \<Rightarrow> Point2D" where
  "normalizeToCanvas normalizedX normalizedY =
     \<lparr>px = normalizedX * canvas_width, py = normalizedY * canvas_height\<rparr>"

definition Canvas2D_clear :: "Canvas2D \<Rightarrow> Canvas2D" where
  "Canvas2D_clear c = Canvas2D_stopDrawing (c\<lparr>rendered := []\<rparr>)"

text \<open>A caller of the accumulator: any sequence of its four public operations.\<close>

datatype Op2D = Start2D Point2D | Draw2D Point2D | Stop2D | Clear2D

fun apply2D :: "Canvas2D \<Rightarrow> Op2D \<Rightarrow> Canvas2D" where
  "apply2D c (Start2D p) = Canvas2D_startDrawing c p"
| "apply2D c (Draw2D p) = Canvas2D_drawTo c p"
| "apply2D c Stop2D = Canvas2D_stopDrawing c"
| "apply2D c Clear2D = Canvas2D_clear c"

definition run2D :: "Op2D list \<Rightarrow> Canvas2D" where
  "run2D ops = foldl apply2D Canvas2D_init ops"

text \<open>Consecutive points of a stroke are at least \<open>minDistance\<close> apart.\<close>

fun spaced2D :: "Point2D list \<Rightarrow> bool" where
  "spaced2D (a # b # ps) = (minDistance \<le> getDistance a b \<and> spaced2D (b # ps))"
| "spaced2D _ = True"

subsection \<open>3D stroke accumulator (\<^verbatim>\<open>three/neonLine3D.ts\<close>, \<^verbatim>\<open>three/scene.ts\<close>)\<close>

record Vector3 =
  vx :: real
  vy :: real
  vz :: real

text \<open>\<^verbatim>\<open>Vector3.lerp\<close> and \<^verbatim>\<open>Vector3.distanceTo\<close> of three.js.\<close>

definition lerp :: "Vector3 \<Rightarrow> Vector3 \<Rightarrow> real \<Rightarrow> Vector3" where
  "lerp a b alpha =
     \<lparr>vx = vx a + (vx b - vx a) * alpha, vy = vy a + (vy b - vy a) * alpha,
      vz = vz a + (vz b - vz a) * alpha\<rparr>"

definition distanceTo :: "Vector3 \<Rightarrow> Vector3 \<Rightarrow> real" where
  "distanceTo a b =
     (let dx = vx a - vx b; dy = vy a - vy b; dz = vz a - vz b
      in sqrt (dx * dx + dy * dy + dz * dz))"

text \<open>\<open>geometry\<close> is the position attribute that \<^verbatim>\<open>updateGeometry\<close> writes.\<close>

record NeonLine3D =
  points :: "Vector3 list"
  l_lastPoint :: "Vector3 option"
  l_isDrawing :: bool
  geometry :: "Vector3 list"

definition NeonLine3D_new :: NeonLine3D where
  "NeonLine3D_new = \<lparr>points = [], l_lastPoint = None, l_isDrawing = False, geometry = []\<rparr>"

definition updateGeometry :: "NeonLine3D \<Rightarrow> NeonLine3D" where
  "updateGeometry l = (if length (points l) = 0 then l else l\<lparr>geometry := points l\<rparr>)"

definition NeonLine3D_startDrawing :: "NeonLine3D \<Rightarrow> Vector3 \<Rightarrow> NeonLine3D" where
  "NeonLine3D_startDrawing l point =
     updateGeometry (l\<lparr>l_isDrawing := True, l_lastPoint := Some point, points := [point]\<rparr>)"

definition NeonLine3D_interpolate :: "Vector3 \<Rightarrow> Vector3 \<Rightarrow> real \<Rightarrow> Vector3" where
  "NeonLine3D_interpolate a b factor = lerp a b factor"

definition NeonLine3D_addPoint :: "NeonLine3D \<Rightarrow> Vector3 \<Rightarrow> NeonLine3D" where
  "NeonLine3D_addPoint l point =
     (case l_lastPoint l of
        None \<Rightarrow> l
      | Some lastPoint \<Rightarrow>
          if \<not> l_isDrawing l then l
          else
            (let smoothedPoint = NeonLine3D_interpolate lastPoint point smoothingFactor;
                 distance = distanceTo lastPoint smoothedPoint
             in if distance < minDistance then l
                else updateGeometry
                       (l\<lparr>points := points l @ [smoothedPoint],
                          l_lastPoint := Some smoothedPoint\<rparr>)))"

definition NeonLine3D_stopDrawing :: "NeonLine3D \<Rightarrow> NeonLine3D" where
  "NeonLine3D_stopDrawing l = l\<lparr>l_isDrawing := False, l_lastPoint := None\<rparr>"

definition NeonLine3D_clear :: "NeonLine3D \<Rightarrow> NeonLine3D" where
  "NeonLine3D_clear l =
     updateGeometry (l\<lparr>points := [], l_lastPoint := None, l_isDrawing := False\<rparr>)"

datatype Op3D = Start3D Vector3 | Add3D Vector3 | Stop3D | Clear3D

fun apply3D :: "NeonLine3D \<Rightarrow> Op3D \<Rightarrow> NeonLine3D" where
  "apply3D l (Start3D p) = NeonLine3D_startDrawing l p"
| "apply3D l (Add3D p) = NeonLine3D_addPoint l p"
| "apply3D l Stop3D = NeonLine3D_stopDrawing l"
| "apply3D l Clear3D = NeonLine3D_clear l"

definition run3D :: "Op3D list \<Rightarrow> NeonLine3D" where
  "run3D ops = foldl apply3D NeonLine3D_new ops"

fun spaced3D :: "Vector3 list \<Rightarrow> bool" where
  "spaced3D (a # b # ps) = (minDistance \<le> distanceTo a b \<and> spaced3D (b # ps))"
| "spaced3D _ = True"

text \<open>\<^verbatim>\<open>three/depthController.ts\<close>\<close>

record DepthController =
  depthRange :: real

definition DepthController_new :: DepthController where
  "DepthController_new = \<lparr>depthRange = 10\<rparr>"

definition getZDepth :: "DepthController \<Rightarrow> real \<Rightarrow> real" where
  "getZDepth dc normalizedDepth = (normalizedDepth - 0.5) * depthRange dc"

definition normalizeTo3D ::
  "DepthController \<Rightarrow> real \<Rightarrow> real \<Rightarrow> real \<Rightarrow> real \<Rightarrow> real \<Rightarrow> Vector3" where
  "normalizeTo3D dc normalizedX normalizedY normalizedZ canvasWidth canvasHeight =
     (let aspect = canvasWidth / canvasHeight;
          scale = 10
      in \<lparr>vx = (normalizedX - 0.5) * scale * aspect,
          vy = (0.5 - normalizedY) * scale,
          vz = getZDepth dc normalizedZ\<rparr>)"

text \<open>
  \<^verbatim>\<open>Scene3D\<close> holds its lines in \<open>lines\<close>; \<open>currentLine\<close> is a reference to one of them,
  here its position in \<open>lines\<close>. \<open>clientWidth\<close> and \<open>clientHeight\<close> are the dimensions of
  the container element.
\<close>

record Scene3D =
  currentLine :: "nat option"
  lines :: "NeonLine3D list"
  depthController :: DepthController
  clientWidth :: real
  clientHeight :: real

definition Scene3D_new :: "real \<Rightarrow> real \<Rightarrow> Scene3D" where
  "Scene3D_new w h =
     \<lparr>currentLine = None, lines = [], depthController = DepthController_new,
      clientWidth = w, clientHeight = h\<rparr>"

definition Scene3D_startDrawing :: "Scene3D \<Rightarrow> real \<Rightarrow> real \<Rightarrow> real \<Rightarrow> Scene3D" where
  "Scene3D_startDrawing sc x y z =
     (let point = \<lparr>vx = x, vy = y, vz = z\<rparr>;
          line = NeonLine3D_startDrawing NeonLine3D_new point
      in sc\<lparr>currentLine := Some (length (lines sc)), lines := lines sc @ [line]\<rparr>)"

definition Scene3D_addPoint :: "Scene3D \<Rightarrow> real \<Rightarrow> real \<Rightarrow> real \<Rightarrow> Scene3D" where
  "Scene3D_addPoint sc x y z =
     (case currentLine sc of
        None \<Rightarrow> sc
      | Some i \<Rightarrow>
          (let point = \<lparr>vx = x, vy = y, vz = z\<rparr>
           in sc\<lparr>lines := (lines sc)[i := NeonLine3D_addPoint (lines sc ! i) point]\<rparr>))"

definition Scene3D_stopDrawing :: "Scene3D \<Rightarrow> Scene3D" where
  "Scene3D_stopDrawing sc =
     (case currentLine sc of
        None \<Rightarrow> sc
      | Some i \<Rightarrow>
          sc\<lparr>lines := (lines sc)[i := NeonLine3D_stopDrawing (lines sc ! i)],
             currentLine := None\<rparr>)"

definition Scene3D_normalizeTo3D :: "Scene3D \<Rightarrow> real \<Rightarrow> real \<Rightarrow> real \<Rightarrow> Vector3" where
  "Scene3D_normalizeTo3D sc normalizedX normalizedY normalizedZ =
     normalizeTo3D (depthController sc) normalizedX normalizedY normalizedZ
       (clientWidth sc) (clientHeight sc)"

text \<open>Every line is cleared and removed from the scene; none is kept.\<close>

definition Scene3D_clear :: "Scene3D \<Rightarrow> Scene3D" where
  "Scene3D_clear sc = sc\<lparr>lines := [], currentLine := None\<rparr>"

datatype OpScene = StartS real real real | AddS real real real | StopS | ClearS

fun applyScene :: "Scene3D \<Rightarrow> OpScene \<Rightarrow> Scene3D" where
  "applyScene sc (StartS x y z) = Scene3D_startDrawing sc x y z"
| "applyScene sc (AddS x y z) = Scene3D_addPoint sc x y z"
| "applyScene sc StopS = Scene3D_stopDrawing sc"
| "applyScene sc ClearS = Scene3D_clear sc"

definition runScene :: "real \<Rightarrow> real \<Rightarrow> OpScene list \<Rightarrow> Scene3D" where
  "runScene w h ops = foldl applyScene (Scene3D_new w h) ops"

text \<open>The scene has an open stroke: a current line, or any line in the drawing state.\<close>

definition open3D :: "Scene3D \<Rightarrow> bool" where
  "open3D sc = (currentLine sc \<noteq> None \<or> filter l_isDrawing (lines sc) \<noteq> [])"

subsection \<open>Orchestrator (\<^verbatim>\<open>main.ts\<close>)\<close>

datatype DrawingMode = Mode2D | Mode3D | ModeNone

text \<open>
  The application state that the per-frame callback reads and writes. \<open>detector\<close> is the
  global detector instance behind \<^verbatim>\<open>detectGesture\<close>. The mode indicator and the tracking
  overlay only display.
\<close>

record App =
  canvas2D :: Canvas2D
  scene3D :: Scene3D
  currentMode :: DrawingMode
  lastGestureState :: "GestureState option"
  detector :: GestureDetector

definition App_init :: "real \<Rightarrow> real \<Rightarrow> App" where
  "App_init w h =
     \<lparr>canvas2D = Canvas2D_init, scene3D = Scene3D_new w h, currentMode = ModeNone,
      lastGestureState = None, detector = GestureDetector_init\<rparr>"

text \<open>\<^verbatim>\<open>this.lastGestureState?.gesture === g\<close>\<close>

definition last_gesture_is :: "App \<Rightarrow> Gesture \<Rightarrow> bool" where
  "last_gesture_is app g =
     (case lastGestureState app of None \<Rightarrow> False | Some lg \<Rightarrow> gesture lg = g)"

text \<open>\<^verbatim>\<open>!this.lastGestureState?.isDrawing || this.lastGestureState.gesture !== g\<close>\<close>

definition starts_new_line :: "App \<Rightarrow> Gesture \<Rightarrow> bool" where
  "starts_new_line app g =
     (case lastGestureState app of
        None \<Rightarrow> True
      | Some lg \<Rightarrow> \<not> gs_isDrawing lg \<or> gesture lg \<noteq> g)"

text \<open>The final \<^verbatim>\<open>else\<close> branch, and the null branch: stop the surface of the current mode.\<close>

definition stop_current :: "App \<Rightarrow> App" where
  "stop_current app =
     (if currentMode app = Mode2D then app\<lparr>canvas2D := Canvas2D_stopDrawing (canvas2D app)\<rparr>
      else if currentMode app = Mode3D then app\<lparr>scene3D := Scene3D_stopDrawing (scene3D app)\<rparr>
      else app)"

text \<open>
  The part of \<^verbatim>\<open>updateDrawing\<close> after the mode has been determined (``Handle drawing'').
  \<^verbatim>\<open>indexTip.x\<close> throws when the landmark array has no index 8.
\<close>

definition handle_drawing :: "App \<Rightarrow> GestureState \<Rightarrow> HandLandmark option \<Rightarrow> error + App" where
  "handle_drawing app gestureState indexTip =
     (if gs_isDrawing gestureState \<and> gesture gestureState = PINCH then
        (if currentMode app = Mode2D then
           (let app2 = (if last_gesture_is app CLOSED_FIST
                        then app\<lparr>scene3D := Scene3D_stopDrawing (scene3D app)\<rparr>
                        else app)
            in case indexTip of
                 None \<Rightarrow> Inl TypeError
               | Some tip \<Rightarrow>
                  (let point = normalizeToCanvas (lm_x tip) (lm_y tip)
                   in if starts_new_line app2 PINCH
                      then Inr (app2\<lparr>canvas2D := Canvas2D_startDrawing (canvas2D app2) point\<rparr>)
                      else Inr (app2\<lparr>canvas2D := Canvas2D_drawTo (canvas2D app2) point\<rparr>)))
         else if currentMode app = Mode3D then
           (let app2 = (if last_gesture_is app PINCH \<or> last_gesture_is app OPEN_HAND
                        then app\<lparr>canvas2D := Canvas2D_stopDrawing (canvas2D app)\<rparr>
                        else app)
            in case indexTip of
                 None \<Rightarrow> Inl TypeError
               | Some tip \<Rightarrow>
                  (let coords = Scene3D_normalizeTo3D (scene3D app2)
                                  (lm_x tip) (lm_y tip) (depth gestureState)
                   in if starts_new_line app2 CLOSED_FIST
                      then Inr (app2\<lparr>scene3D :=
                                  Scene3D_startDrawing (scene3D app2)
                                    (vx coords) (vy coords) (vz coords)\<rparr>)
                      else Inr (app2\<lparr>scene3D :=
                                  Scene3D_addPoint (scene3D app2)
                                    (vx coords) (vy coords) (vz coords)\<rparr>)))
         else Inr app)
      else Inr (stop_current app))"

definition updateDrawing :: "App \<Rightarrow> GestureState \<Rightarrow> HandData option \<Rightarrow> error + App" where
  "updateDrawing app gestureState handData =
     (case handData of
        None \<Rightarrow> Inr ((stop_current app)\<lparr>currentMode := ModeNone\<rparr>)
      | Some h \<Rightarrow>
         (let indexTip = lm_at (landmarks h) 8
          in if gesture gestureState = SPREAD_FINGERS then
               Inr (if currentMode app = Mode2D
                    then app\<lparr>canvas2D := Canvas2D_clear (canvas2D app)\<rparr>
                    else if currentMode app = Mode3D
                    then app\<lparr>scene3D := Scene3D_clear (scene3D app)\<rparr>
                    else app)
             else if gesture gestureState = CLOSED_FIST then
               handle_drawing (app\<lparr>currentMode := Mode3D\<rparr>) gestureState indexTip
             else if gesture gestureState = PINCH then
               handle_drawing (app\<lparr>currentMode := Mode2D\<rparr>) gestureState indexTip
             else if gesture gestureState = OPEN_HAND then
               Inr (app\<lparr>currentMode := Mode2D,
                        canvas2D := Canvas2D_stopDrawing (canvas2D app)\<rparr>)
             else handle_drawing app gestureState indexTip))"

text \<open>
  \<^verbatim>\<open>handleHandData\<close>: classify, update the drawing, remember the gesture state. An
  exception of \<^verbatim>\<open>detectGesture\<close> leaves the callback before anything is written.
\<close>

definition handleHandData :: "App \<Rightarrow> HandData option \<Rightarrow> error + App" where
  "handleHandData app handData =
     bindE (detect (detector app) handData) (\<lambda>(gestureState, d').
       bindE (updateDrawing (app\<lparr>detector := d'\<rparr>) gestureState handData) (\<lambda>app'.
         Inr (app'\<lparr>lastGestureState := Some gestureState\<rparr>)))"

text \<open>
  The frames that the hand tracker delivers, in order. A frame whose callback throws
  changes nothing, and the next frame is processed.
\<close>

fun run_frames :: "App \<Rightarrow> HandData option list \<Rightarrow> App" where
  "run_frames app [] = app"
| "run_frames app (f # fs) =
     (case handleHandData app f of
        Inl e \<Rightarrow> run_frames app fs
      | Inr app' \<Rightarrow> run_frames app' fs)"

subsection \<open>The point pipeline as the specification words it\<close>

text \<open>
  The specification describes one pipeline for both surfaces. \<open>spec_push\<close> is its step a
  (capacity 5, the oldest point evicted), \<open>spec_mean2D\<close> and \<open>spec_mean3D\<close> step b,
  \<open>spec_lerp2D\<close> and \<open>spec_lerp3D\<close> the linear interpolation of steps c and d, and
  \<open>spec_weighted2D\<close> and \<open>spec_weighted3D\<close> the blend of the last three buffered points
  with the weights 0.1, 0.3 and 0.6, oldest first. A full buffer holds five points, so
  three are always there.
\<close>

definition spec_push :: "'a list \<Rightarrow> 'a \<Rightarrow> 'a list" where
  "spec_push buf p = (let b = buf @ [p] in if length b > 5 then tl b else b)"

definition spec_mean2D :: "Point2D list \<Rightarrow> Point2D" where
  "spec_mean2D buf =
     \<lparr>px = sum_list (map px buf) / real (length buf),
      py = sum_list (map py buf) / real (length buf)\<rparr>"

definition spec_lerp2D :: "Point2D \<Rightarrow> Point2D \<Rightarrow> real \<Rightarrow> Point2D" where
  "spec_lerp2D a b t = \<lparr>px = px a + (px b - px a) * t, py = py a + (py b - py a) * t\<rparr>"

definition spec_weighted2D :: "Point2D list \<Rightarrow> Point2D" where
  "spec_weighted2D buf =
     (let n = length buf; a = buf ! (n - 3); b = buf ! (n - 2); c = buf ! (n - 1)
      in \<lparr>px = 0.1 * px a + 0.3 * px b + 0.6 * px c,
          py = 0.1 * py a + 0.3 * py b + 0.6 * py c\<rparr>)"

definition spec_result2D :: "Point2D \<Rightarrow> Point2D list \<Rightarrow> Point2D \<Rightarrow> Point2D" where
  "spec_result2D lastCommitted buf rawPoint =
     (let b = spec_push buf rawPoint;
          avg = spec_mean2D b;
          interpolated = spec_lerp2D lastCommitted avg smoothingFactor
      in if length b = 5 then spec_lerp2D (spec_weighted2D b) interpolated 0.7
         else interpolated)"

definition spec_mean3D :: "Vector3 list \<Rightarrow> Vector3" where
  "spec_mean3D buf =
     \<lparr>vx = sum_list (map vx buf) / real (length buf),
      vy = sum_list (map vy buf) / real (length buf),
      vz = sum_list (map vz buf) / real (length buf)\<rparr>"

definition spec_lerp3D :: "Vector3 \<Rightarrow> Vector3 \<Rightarrow> real \<Rightarrow> Vector3" where
  "spec_lerp3D a b t =
     \<lparr>vx = vx a + (vx b - vx a) * t, vy = vy a + (vy b - vy a) * t,
      vz = vz a + (vz b - vz a) * t\<rparr>"

definition spec_weighted3D :: "Vector3 list \<Rightarrow> Vector3" where
  "spec_weighted3D buf =
     (let n = length buf; a = buf ! (n - 3); b = buf ! (n - 2); c = buf ! (n - 1)
      in \<lparr>vx = 0.1 * vx a + 0.3 * vx b + 0.6 * vx c,
          vy = 0.1 * vy a + 0.3 * vy b + 0.6 * vy c,
          vz = 0.1 * vz a + 0.3 * vz b + 0.6 * vz c\<rparr>)"

definition spec_result3D :: "Vector3 \<Rightarrow> Vector3 list \<Rightarrow> Vector3 \<Rightarrow> Vector3" where
  "spec_result3D lastCommitted buf rawPoint =
     (let b = spec_push buf rawPoint;
          avg = spec_mean3D b;
          interpolated = spec_lerp3D lastCommitted avg smoothingFactor
      in if length b = 5 then spec_lerp3D (spec_weighted3D b) interpolated 0.7
         else interpolated)"

subsection \<open>Example inputs\<close>

text \<open>
  Hands whose 21 landmarks lie on one line parallel to the x axis, at height \<open>Y\<close>: the wrist
  and the inner landmarks at \<open>x = 0\<close>, the five finger tips at the given abscissas. A hand
  cut short to 20 landmarks.
\<close>

definition lm3 :: "real \<Rightarrow> real \<Rightarrow> real \<Rightarrow> HandLandmark" where
  "lm3 a b c = \<lparr>lm_x = a, lm_y = b, lm_z = c\<rparr>"

definition hand_of :: "HandLandmark list \<Rightarrow> HandData" where
  "hand_of lms =
     \<lparr>landmarks = lms, handedness = Right, detectionConfidence = 1, trackingConfidence = 1,
      averageDepth = 0\<rparr>"

definition axis_hand :: "real \<Rightarrow> real \<Rightarrow> real \<Rightarrow> real \<Rightarrow> real \<Rightarrow> real \<Rightarrow> HandData" where
  "axis_hand Y t i m r p =
     hand_of ((replicate 21 (lm3 0 Y 0))
       [4 := lm3 t Y 0, 8 := lm3 i Y 0, 12 := lm3 m Y 0, 16 := lm3 r Y 0, 20 := lm3 p Y 0])"

definition short_hand :: HandData where
  "short_hand = hand_of (replicate 20 (lm3 0 0 0))"

text \<open>Points of the canvas and of the scene.\<close>

definition pt :: "real \<Rightarrow> real \<Rightarrow> Point2D" where
  "pt a b = \<lparr>px = a, py = b\<rparr>"

definition vec :: "real \<Rightarrow> real \<Rightarrow> real \<Rightarrow> Vector3" where
  "vec a b c = \<lparr>vx = a, vy = b, vz = c\<rparr>"

subsection \<open>Invariants of the accumulators\<close>

text \<open>
  What holds of a canvas, of a line and of a scene in every state that their public
  operations reach: while a stroke is open, the last point is the last committed point of
  the stroke and (in 2D) the smoothing buffer holds between one and five points; when no
  stroke is open, the per-stroke state is reset. Committed points are spaced. The current
  line of a scene is the last of its lines.
\<close>

definition inv2D :: "Canvas2D \<Rightarrow> bool" where
  "inv2D c =
     ((if c_isDrawing c
       then smoothedPoints c \<noteq> [] \<and> c_lastPoint c = Some (last (smoothedPoints c)) \<and>
            pointBuffer c \<noteq> [] \<and> length (pointBuffer c) \<le> bufferSize
       else c_lastPoint c = None \<and> pointBuffer c = [] \<and> smoothedPoints c = []) \<and>
      spaced2D (smoothedPoints c) \<and> list_all spaced2D (rendered c))"

definition inv3D :: "NeonLine3D \<Rightarrow> bool" where
  "inv3D l =
     ((if l_isDrawing l
       then points l \<noteq> [] \<and> l_lastPoint l = Some (last (points l))
       else l_lastPoint l = None) \<and>
      spaced3D (points l))"

definition invScene :: "Scene3D \<Rightarrow> bool" where
  "invScene sc =
     (list_all inv3D (lines sc) \<and>
      (case currentLine sc of None \<Rightarrow> True | Some i \<Rightarrow> Suc i = length (lines sc)))"

text \<open>A point of the canvas as a complex number: \<open>getDistance\<close> is the norm of a difference.\<close>

definition to_complex :: "Point2D \<Rightarrow> complex" where
  "to_complex p = Complex (px p) (py p)"

subsection \<open>The classifier: when the detectors return\<close>

lemma calculateDistance_Inr:
  "calculateDistance a b = Inr v \<Longrightarrow> a \<noteq> None \<and> b \<noteq> None"
  by (cases a; cases b) simp_all

lemma calculateDistance_ex:
  "a \<noteq> None \<Longrightarrow> b \<noteq> None \<Longrightarrow> \<exists>v. calculateDistance a b = Inr v"
  by (cases a; cases b) (simp_all add: Let_def)

lemma calculateDistance_lm_at:
  "i < length lms \<Longrightarrow> j < length lms \<Longrightarrow>
   \<exists>v. calculateDistance (lm_at lms i) (lm_at lms j) = Inr v"
  by (rule calculateDistance_ex) (simp_all add: lm_at_def)

lemma calculateDistance_None:
  "a = None \<or> b = None \<Longrightarrow> calculateDistance a b = Inl TypeError"
  by (cases a; cases b) simp_all

lemma lm_at_eq_None: "lm_at lms i = None \<longleftrightarrow> length lms \<le> i"
  by (simp add: lm_at_def)

lemma map_distances_ex:
  "w \<noteq> None \<Longrightarrow> list_all (\<lambda>t. t \<noteq> None) ts \<Longrightarrow> \<exists>ds. map_distances w ts = Inr ds"
proof (induction ts)
  case Nil
  then show ?case by simp
next
  case (Cons t ts)
  then obtain ds where ds: "map_distances w ts = Inr ds" by auto
  from Cons.prems have "w \<noteq> None" "t \<noteq> None" by simp_all
  then obtain v where "calculateDistance w t = Inr v"
    using calculateDistance_ex by blast
  with ds show ?case by (simp add: bindE_def)
qed

lemma map_distances_None:
  "w = None \<or> None \<in> set ts \<Longrightarrow> ts \<noteq> [] \<Longrightarrow> map_distances w ts = Inl TypeError"
proof (induction ts)
  case Nil
  then show ?case by simp
next
  case (Cons t ts)
  show ?case
  proof (cases "w = None \<or> t = None")
    case True
    then show ?thesis by (simp add: calculateDistance_None bindE_def)
  next
    case False
    then obtain v where v: "calculateDistance w t = Inr v"
      using calculateDistance_ex [of w t] by auto
    from False Cons.prems have "None \<in> set ts" by auto
    then have "ts \<noteq> []" by auto
    with Cons.IH \<open>None \<in> set ts\<close> have "map_distances w ts = Inl TypeError" by simp
    with v show ?thesis by (simp add: bindE_def)
  qed
qed

lemma adjacent_distances_ex:
  "list_all (\<lambda>t. t \<noteq> None) ts \<Longrightarrow> \<exists>ds. adjacent_distances ts = Inr ds"
proof (induction ts rule: adjacent_distances.induct)
  case (1 a b ts)
  then obtain ds where ds: "adjacent_distances (b # ts) = Inr ds" by auto
  from "1.prems" have "a \<noteq> None" "b \<noteq> None" by simp_all
  then obtain v where "calculateDistance a b = Inr v"
    using calculateDistance_ex by blast
  with ds show ?case by (simp add: bindE_def)
qed simp_all

lemma detectPinch_total:
  assumes "21 \<le> length lms"
  shows "\<exists>r. detectPinch lms = Inr r"
proof -
  from assms have "4 < length lms" "8 < length lms" by simp_all
  then obtain v where "calculateDistance (lm_at lms 4) (lm_at lms 8) = Inr v"
    using calculateDistance_lm_at by blast
  then show ?thesis by (simp add: detectPinch_def bindE_def Let_def)
qed

lemma detectFist_total:
  assumes "21 \<le> length lms"
  shows "\<exists>r. detectFist lms = Inr r"
proof -
  from assms have "lm_at lms 0 \<noteq> None"
    and "list_all (\<lambda>t. t \<noteq> None)
           [lm_at lms 4, lm_at lms 8, lm_at lms 12, lm_at lms 16, lm_at lms 20]"
    by (auto simp: lm_at_def)
  then obtain ds where
    "map_distances (lm_at lms 0)
       [lm_at lms 4, lm_at lms 8, lm_at lms 12, lm_at lms 16, lm_at lms 20] = Inr ds"
    using map_distances_ex by blast
  then show ?thesis by (simp add: detectFist_def bindE_def Let_def)
qed

lemma detectSpread_total:
  assumes "21 \<le> length lms"
  shows "\<exists>r. detectSpread lms = Inr r"
proof -
  from assms have
    "list_all (\<lambda>t. t \<noteq> None) [lm_at lms 8, lm_at lms 12, lm_at lms 16, lm_at lms 20]"
    by (auto simp: lm_at_def)
  then obtain ds where
    "adjacent_distances [lm_at lms 8, lm_at lms 12, lm_at lms 16, lm_at lms 20] = Inr ds"
    using adjacent_distances_ex by blast
  then show ?thesis by (simp add: detectSpread_def bindE_def Let_def)
qed

lemma detectOpen_total:
  assumes "21 \<le> length lms"
  shows "\<exists>r. detectOpen lms f p = Inr r"
proof -
  from assms have "0 < length lms" "12 < length lms" by auto
  then obtain v where "calculateDistance (lm_at lms 0) (lm_at lms 12) = Inr v"
    using calculateDistance_lm_at by blast
  then have "detectOpen lms f p = Inr ((max 0 (1 - (f + p) / 2) + min 1 (v / 0.15)) / 2)"
    by (simp add: detectOpen_def bindE_def Let_def)
  then show ?thesis by blast
qed

lemma detectPinch_short:
  assumes "length lms < 9"
  shows "detectPinch lms = Inl TypeError"
proof -
  from assms have "calculateDistance (lm_at lms 4) (lm_at lms 8) = Inl TypeError"
    by (intro calculateDistance_None) (simp add: lm_at_eq_None)
  then show ?thesis by (simp add: detectPinch_def bindE_def Let_def)
qed

lemma detectFist_short:
  assumes "length lms < 21"
  shows "detectFist lms = Inl TypeError"
proof -
  from assms have "lm_at lms 20 = None" by (simp add: lm_at_eq_None)
  then have
    "map_distances (lm_at lms 0)
       [lm_at lms 4, lm_at lms 8, lm_at lms 12, lm_at lms 16, lm_at lms 20] = Inl TypeError"
    by (intro map_distances_None) simp_all
  then show ?thesis by (simp add: detectFist_def bindE_def Let_def)
qed

lemma detectFist_wrist:
  assumes "detectFist lms = Inr r"
  shows "lm_at lms 0 \<noteq> None"
proof
  assume "lm_at lms 0 = None"
  then have
    "map_distances (lm_at lms 0)
       [lm_at lms 4, lm_at lms 8, lm_at lms 12, lm_at lms 16, lm_at lms 20] = Inl TypeError"
    by (intro map_distances_None) simp_all
  with assms show False by (simp add: detectFist_def bindE_def Let_def)
qed

text \<open>The resolution of detect once the four detectors have returned.\<close>

lemma detect_resolved:
  assumes "detectPinch (landmarks h) = Inr pr" "detectFist (landmarks h) = Inr fr"
    "detectSpread (landmarks h) = Inr sr" "detectOpen (landmarks h) (fst fr) (fst pr) = Inr oc"
    "lm_at (landmarks h) 0 = Some w"
  shows "detect d (Some h) =
     (if fst pr > 0.5 then
        Inr (createState PINCH (fst pr) True 0.5 (Some (no_distances\<lparr>d_pinch := Some (snd pr)\<rparr>)),
             updateHistory d PINCH)
      else if fst fr > 0.5 then
        Inr (createState CLOSED_FIST (fst fr) True
               (max 0 (min 1 ((1 - lm_y w) * depthSensitivity)))
               (Some (no_distances\<lparr>d_fist := Some (snd fr)\<rparr>)),
             updateHistory d CLOSED_FIST)
      else if fst sr > 0.5 then
        Inr (createState SPREAD_FINGERS (fst sr) False 0.5
               (Some (no_distances\<lparr>d_spread := Some (snd sr)\<rparr>)),
             updateHistory d SPREAD_FINGERS)
      else if oc > 0.5 then
        Inr (createState OPEN_HAND oc False 0.5 None, updateHistory d OPEN_HAND)
      else Inr (createState NONE 0 False 0.5 None, updateHistory d NONE))"
  using assms by (simp add: detect_def bindE_def Let_def)

lemma detect_short:
  assumes "length (landmarks h) < 21"
  shows "detect d (Some h) = Inl TypeError"
proof (cases "detectPinch (landmarks h)")
  case (Inl e)
  then show ?thesis by (cases e) (simp add: detect_def bindE_def Let_def)
next
  case (Inr pr)
  with detectFist_short [OF assms] show ?thesis
    by (simp add: detect_def bindE_def Let_def)
qed

subsection \<open>The classifier: resolution of the gesture\<close>

lemma detect_None: "detect d None = Inr (createState NONE 0 False 0.5 None, d)"
  by (simp add: detect_def)

lemma detect_Inr_parts:
  assumes "detect d (Some h) = Inr r"
  shows "\<exists>pr fr sr oc w. detectPinch (landmarks h) = Inr pr \<and> detectFist (landmarks h) = Inr fr
     \<and> detectSpread (landmarks h) = Inr sr \<and> detectOpen (landmarks h) (fst fr) (fst pr) = Inr oc
     \<and> lm_at (landmarks h) 0 = Some w"
proof -
  from assms obtain pr where pr: "detectPinch (landmarks h) = Inr pr"
    by (cases "detectPinch (landmarks h)") (simp_all add: detect_def bindE_def Let_def)
  from assms pr obtain fr where fr: "detectFist (landmarks h) = Inr fr"
    by (cases "detectFist (landmarks h)") (simp_all add: detect_def bindE_def Let_def)
  from assms pr fr obtain sr where sr: "detectSpread (landmarks h) = Inr sr"
    by (cases "detectSpread (landmarks h)") (simp_all add: detect_def bindE_def Let_def)
  from assms pr fr sr obtain oc where oc: "detectOpen (landmarks h) (fst fr) (fst pr) = Inr oc"
    by (cases "detectOpen (landmarks h) (fst fr) (fst pr)")
      (simp_all add: detect_def bindE_def Let_def)
  from detectFist_wrist [OF fr] obtain w where "lm_at (landmarks h) 0 = Some w" by auto
  with pr fr sr oc show ?thesis by blast
qed

lemma detect_total:
  assumes "21 \<le> length (landmarks h)"
  shows "\<exists>pr fr sr oc w. detectPinch (landmarks h) = Inr pr \<and> detectFist (landmarks h) = Inr fr
     \<and> detectSpread (landmarks h) = Inr sr \<and> detectOpen (landmarks h) (fst fr) (fst pr) = Inr oc
     \<and> lm_at (landmarks h) 0 = Some w"
proof -
  from detectPinch_total [OF assms] obtain pr where pr: "detectPinch (landmarks h) = Inr pr" ..
  from detectFist_total [OF assms] obtain fr where fr: "detectFist (landmarks h) = Inr fr" ..
  from detectSpread_total [OF assms] obtain sr where sr: "detectSpread (landmarks h) = Inr sr" ..
  from detectOpen_total [OF assms] obtain oc
    where oc: "detectOpen (landmarks h) (fst fr) (fst pr) = Inr oc" ..
  from detectFist_wrist [OF fr] obtain w where "lm_at (landmarks h) 0 = Some w" by auto
  with pr fr sr oc show ?thesis by blast
qed

lemma gesture_resolved:
  assumes "detectPinch (landmarks h) = Inr pr" "detectFist (landmarks h) = Inr fr"
    "detectSpread (landmarks h) = Inr sr" "detectOpen (landmarks h) (fst fr) (fst pr) = Inr oc"
    "lm_at (landmarks h) 0 = Some w"
  shows "\<exists>s d'. detect d (Some h) = Inr (s, d') \<and>
     gesture s = (if 0.5 < fst pr then PINCH else if 0.5 < fst fr then CLOSED_FIST
                  else if 0.5 < fst sr then SPREAD_FINGERS
                  else if 0.5 < oc then OPEN_HAND else NONE) \<and>
     depth s = (if 0.5 < fst pr then 0.5 else if 0.5 < fst fr
                then max 0 (min 1 ((1 - lm_y w) * depthSensitivity)) else 0.5)"
  unfolding detect_resolved [OF assms] by (simp add: createState_def)

text \<open>
  Claim C4. For every observation with 21 landmarks the four detectors return, \<^verbatim>\<open>detect\<close>
  returns, and the gesture is resolved by fixed priority, first match wins at the strict
  threshold 0.5, in the order Pinch, ClosedFist, SpreadFingers, OpenHand, None. In
  particular, when both the pinch and the fist confidence exceed 0.5 the gesture is Pinch
  and not ClosedFist.
\<close>

theorem C4_fixed_priority:
  assumes "21 \<le> length (landmarks h)"
  shows "\<exists>pr fr sr oc s d'.
     detectPinch (landmarks h) = Inr pr \<and> detectFist (landmarks h) = Inr fr \<and>
     detectSpread (landmarks h) = Inr sr \<and>
     detectOpen (landmarks h) (fst fr) (fst pr) = Inr oc \<and>
     detect d (Some h) = Inr (s, d') \<and>
     gesture s = (if 0.5 < fst pr then PINCH else if 0.5 < fst fr then CLOSED_FIST
                  else if 0.5 < fst sr then SPREAD_FINGERS
                  else if 0.5 < oc then OPEN_HAND else NONE) \<and>
     (0.5 < fst pr \<and> 0.5 < fst fr \<longrightarrow> gesture s = PINCH \<and> gesture s \<noteq> CLOSED_FIST)"
proof -
  from detect_total [OF assms] obtain pr fr sr oc w where
    parts: "detectPinch (landmarks h) = Inr pr" "detectFist (landmarks h) = Inr fr"
      "detectSpread (landmarks h) = Inr sr" "detectOpen (landmarks h) (fst fr) (fst pr) = Inr oc"
      "lm_at (landmarks h) 0 = Some w"
    by blast
  from gesture_resolved [OF parts, of d] obtain s d' where
    s: "detect d (Some h) = Inr (s, d')"
      "gesture s = (if 0.5 < fst pr then PINCH else if 0.5 < fst fr then CLOSED_FIST
                  else if 0.5 < fst sr then SPREAD_FINGERS
                  else if 0.5 < oc then OPEN_HAND else NONE)"
    by blast
  then have "0.5 < fst pr \<and> 0.5 < fst fr \<longrightarrow> gesture s = PINCH \<and> gesture s \<noteq> CLOSED_FIST"
    by simp
  with parts s show ?thesis by blast
qed

text \<open>
  Claim C10. Whatever the input, null included, a state that \<^verbatim>\<open>detect\<close> returns has depth
  exactly 0.5 unless its gesture is ClosedFist.
\<close>

theorem C10_depth_half_unless_fist:
  assumes "detect d handData = Inr (s, d')" "gesture s \<noteq> CLOSED_FIST"
  shows "depth s = 0.5"
proof (cases handData)
  case None
  with assms show ?thesis by (auto simp: detect_def createState_def)
next
  case (Some h)
  with assms(1) detect_Inr_parts obtain pr fr sr oc w where
    parts: "detectPinch (landmarks h) = Inr pr" "detectFist (landmarks h) = Inr fr"
      "detectSpread (landmarks h) = Inr sr" "detectOpen (landmarks h) (fst fr) (fst pr) = Inr oc"
      "lm_at (landmarks h) 0 = Some w"
    by blast
  from gesture_resolved [OF parts, of d] assms Some show ?thesis
    by (auto split: if_splits)
qed

text \<open>
  Claim C7. When \<^verbatim>\<open>detect\<close> resolves ClosedFist, the depth it returns is
  \<open>clamp ((1 - wrist.y) * depthSensitivity, 0, 1)\<close>, the multiplier applied before the
  clamp; with the configured \<open>depthSensitivity = 2\<close>, \<open>wrist.y = 0\<close> gives depth 1 and
  \<open>wrist.y = 1\<close> gives depth 0.
\<close>

theorem C7_fist_depth:
  assumes "detect d (Some h) = Inr (s, d')" "gesture s = CLOSED_FIST"
    "lm_at (landmarks h) 0 = Some wrist"
  shows "depth s = max 0 (min 1 ((1 - lm_y wrist) * depthSensitivity)) \<and>
         depthSensitivity = 2 \<and>
         (lm_y wrist = 0 \<longrightarrow> depth s = 1) \<and> (lm_y wrist = 1 \<longrightarrow> depth s = 0)"
proof -
  from assms(1) detect_Inr_parts obtain pr fr sr oc w where
    parts: "detectPinch (landmarks h) = Inr pr" "detectFist (landmarks h) = Inr fr"
      "detectSpread (landmarks h) = Inr sr" "detectOpen (landmarks h) (fst fr) (fst pr) = Inr oc"
      "lm_at (landmarks h) 0 = Some w"
    by blast
  with assms(3) have w: "w = wrist" by simp
  from gesture_resolved [OF parts, of d] assms(1,2) w
  have "depth s = max 0 (min 1 ((1 - lm_y wrist) * depthSensitivity))"
    by (auto split: if_splits)
  then show ?thesis by (simp add: depthSensitivity_def)
qed

text \<open>
  Claim C5. A pinch distance exactly equal to \<open>pinchThreshold\<close> gives pinch confidence 0 and
  a gesture other than Pinch; and a gesture whose confidence is exactly 0.5 is not the one
  \<^verbatim>\<open>detect\<close> returns, since each comparison is a strict \<open>>\<close>.
\<close>

theorem C5_threshold_is_strict:
  assumes "detectPinch (landmarks h) = Inr pr" "detectFist (landmarks h) = Inr fr"
    "detectSpread (landmarks h) = Inr sr" "detectOpen (landmarks h) (fst fr) (fst pr) = Inr oc"
    "detect d (Some h) = Inr (s, d')"
  shows "(snd pr = pinchThreshold \<longrightarrow> fst pr = 0 \<and> gesture s \<noteq> PINCH) \<and>
         (fst pr = 0.5 \<longrightarrow> gesture s \<noteq> PINCH) \<and>
         (fst fr = 0.5 \<longrightarrow> gesture s \<noteq> CLOSED_FIST) \<and>
         (fst sr = 0.5 \<longrightarrow> gesture s \<noteq> SPREAD_FINGERS) \<and>
         (oc = 0.5 \<longrightarrow> gesture s \<noteq> OPEN_HAND)"
proof -
  from detectFist_wrist [OF assms(2)] obtain w where w: "lm_at (landmarks h) 0 = Some w"
    by auto
  from gesture_resolved [OF assms(1-4) w, of d] assms(5)
  have g: "gesture s = (if 0.5 < fst pr then PINCH else if 0.5 < fst fr then CLOSED_FIST
                  else if 0.5 < fst sr then SPREAD_FINGERS
                  else if 0.5 < oc then OPEN_HAND else NONE)"
    by auto
  have "snd pr = pinchThreshold \<longrightarrow> fst pr = 0"
    using assms(1)
    by (auto simp: detectPinch_def bindE_def Let_def pinchThreshold_def split: sum.splits)
  with g show ?thesis by simp
qed

text \<open>
  Claim C3, as the code has it. \<^verbatim>\<open>detect(null)\<close> returns the state
  \<open>{NONE, 0, false, 0.5}\<close>, and \<^verbatim>\<open>detect\<close> returns a state for every observation with at
  least 21 landmarks. For an observation with fewer than 21 landmarks it does not degrade to
  the \<open>NONE\<close> state: reading a coordinate of the missing landmark throws a \<^verbatim>\<open>TypeError\<close>.
\<close>

theorem C3_detect_total_from_21_landmarks:
  "detect d None = Inr (createState NONE 0 False 0.5 None, d) \<and>
   (21 \<le> length (landmarks h) \<longrightarrow> (\<exists>s d'. detect d (Some h) = Inr (s, d'))) \<and>
   (length (landmarks h) < 21 \<longrightarrow> detect d (Some h) = Inl TypeError)"
proof (intro conjI impI)
  show "detect d None = Inr (createState NONE 0 False 0.5 None, d)" by (rule detect_None)
next
  assume "21 \<le> length (landmarks h)"
  from detect_total [OF this] obtain pr fr sr oc w where
    parts: "detectPinch (landmarks h) = Inr pr" "detectFist (landmarks h) = Inr fr"
      "detectSpread (landmarks h) = Inr sr" "detectOpen (landmarks h) (fst fr) (fst pr) = Inr oc"
      "lm_at (landmarks h) 0 = Some w"
    by blast
  from gesture_resolved [OF parts, of d] show "\<exists>s d'. detect d (Some h) = Inr (s, d')" by blast
next
  assume "length (landmarks h) < 21"
  then show "detect d (Some h) = Inl TypeError" by (rule detect_short)
qed

subsection \<open>The classifier on the example hands\<close>

lemma calculateDistance_axis:
  "calculateDistance (Some (lm3 a Y 0)) (Some (lm3 b Y 0)) = Inr \<bar>a - b\<bar>"
  by (simp add: lm3_def)

lemma length_axis_hand [simp]: "length (landmarks (axis_hand Y t i m r p)) = 21"
  by (simp add: axis_hand_def hand_of_def)

lemma lm_at_axis_hand:
  "lm_at (landmarks (axis_hand Y t i m r p)) 0 = Some (lm3 0 Y 0)"
  "lm_at (landmarks (axis_hand Y t i m r p)) 4 = Some (lm3 t Y 0)"
  "lm_at (landmarks (axis_hand Y t i m r p)) 8 = Some (lm3 i Y 0)"
  "lm_at (landmarks (axis_hand Y t i m r p)) 12 = Some (lm3 m Y 0)"
  "lm_at (landmarks (axis_hand Y t i m r p)) 16 = Some (lm3 r Y 0)"
  "lm_at (landmarks (axis_hand Y t i m r p)) 20 = Some (lm3 p Y 0)"
  by (simp_all add: lm_at_def axis_hand_def hand_of_def)

lemma detectPinch_axis:
  "detectPinch (landmarks (axis_hand Y t i m r p)) =
     Inr (max 0 (min 1 (1 - \<bar>t - i\<bar> / pinchThreshold)), \<bar>t - i\<bar>)"
  by (simp add: detectPinch_def lm_at_axis_hand calculateDistance_axis bindE_def Let_def
      del: calculateDistance.simps)

lemma detectFist_axis:
  "detectFist (landmarks (axis_hand Y t i m r p)) =
     Inr (max 0 (min 1 (1 - (\<bar>t\<bar> + \<bar>i\<bar> + \<bar>m\<bar> + \<bar>r\<bar> + \<bar>p\<bar>) / 5 / fistThreshold)),
          (\<bar>t\<bar> + \<bar>i\<bar> + \<bar>m\<bar> + \<bar>r\<bar> + \<bar>p\<bar>) / 5)"
  by (simp add: detectFist_def lm_at_axis_hand calculateDistance_axis bindE_def Let_def
      del: calculateDistance.simps)

lemma detectSpread_axis:
  "detectSpread (landmarks (axis_hand Y t i m r p)) =
     Inr (max 0 (min 1 (min \<bar>i - m\<bar> (min \<bar>m - r\<bar> \<bar>r - p\<bar>) / spreadThreshold)),
          min \<bar>i - m\<bar> (min \<bar>m - r\<bar> \<bar>r - p\<bar>))"
  by (simp add: detectSpread_def lm_at_axis_hand calculateDistance_axis bindE_def Let_def
      del: calculateDistance.simps)

lemma detectOpen_axis:
  "detectOpen (landmarks (axis_hand Y t i m r p)) f q =
     Inr ((max 0 (1 - (f + q) / 2) + min 1 (\<bar>m\<bar> / 0.15)) / 2)"
  by (simp add: detectOpen_def lm_at_axis_hand calculateDistance_axis bindE_def Let_def
      del: calculateDistance.simps)

lemmas detect_axis = detectPinch_axis detectFist_axis detectSpread_axis detectOpen_axis

theorem C4_fixed_priority_witness:
  "21 \<le> length (landmarks (axis_hand 0 0 0 0 0 0)) \<and>
   detectPinch (landmarks (axis_hand 0 0 0 0 0 0)) = Inr (1, 0) \<and>
   detectFist (landmarks (axis_hand 0 0 0 0 0 0)) = Inr (1, 0) \<and>
   (\<exists>s d'. detect GestureDetector_init (Some (axis_hand 0 0 0 0 0 0)) = Inr (s, d') \<and>
      gesture s = PINCH)"
proof -
  have len: "21 \<le> length (landmarks (axis_hand 0 0 0 0 0 0))" by simp
  have p: "detectPinch (landmarks (axis_hand 0 0 0 0 0 0)) = Inr (1, 0)"
    and f: "detectFist (landmarks (axis_hand 0 0 0 0 0 0)) = Inr (1, 0)"
    by (simp_all add: detect_axis)
  from C4_fixed_priority [OF len, of GestureDetector_init] p f have
    "\<exists>s d'. detect GestureDetector_init (Some (axis_hand 0 0 0 0 0 0)) = Inr (s, d') \<and>
      gesture s = PINCH"
    by auto
  with len p f show ?thesis by blast
qed

theorem C10_depth_half_unless_fist_witness:
  "detect GestureDetector_init (Some (axis_hand 0 0 0 0 0 0)) =
     Inr (createState PINCH 1 True 0.5 (Some (no_distances\<lparr>d_pinch := Some 0\<rparr>)),
          updateHistory GestureDetector_init PINCH) \<and>
   gesture (createState PINCH 1 True 0.5 (Some (no_distances\<lparr>d_pinch := Some 0\<rparr>))) \<noteq> CLOSED_FIST \<and>
   depth (createState PINCH 1 True 0.5 (Some (no_distances\<lparr>d_pinch := Some 0\<rparr>))) = 0.5"
proof -
  have d: "detect GestureDetector_init (Some (axis_hand 0 0 0 0 0 0)) =
     Inr (createState PINCH 1 True 0.5 (Some (no_distances\<lparr>d_pinch := Some 0\<rparr>)),
          updateHistory GestureDetector_init PINCH)"
    by (simp add: detect_def detect_axis bindE_def Let_def)
  have g: "gesture (createState PINCH 1 True 0.5 (Some (no_distances\<lparr>d_pinch := Some 0\<rparr>)))
            \<noteq> CLOSED_FIST"
    by (simp add: createState_def)
  from C10_depth_half_unless_fist [OF d g] d g show ?thesis by blast
qed

text \<open>A fist at height Y: pinch confidence 0.2, fist confidence 0.9.\<close>

lemma detect_fist_hand:
  "detect d (Some (axis_hand Y (-0.02) 0.02 0 0 0)) =
     Inr (createState CLOSED_FIST 0.9 True (max 0 (min 1 ((1 - Y) * depthSensitivity)))
            (Some (no_distances\<lparr>d_fist := Some 0.008\<rparr>)),
          updateHistory d CLOSED_FIST)"
  by (simp add: detect_def detect_axis lm_at_axis_hand bindE_def Let_def lm3_def
      pinchThreshold_def fistThreshold_def)

theorem C7_fist_depth_witness:
  "(\<exists>s d'. detect GestureDetector_init (Some (axis_hand 0 (-0.02) 0.02 0 0 0)) = Inr (s, d') \<and>
      gesture s = CLOSED_FIST \<and>
      lm_at (landmarks (axis_hand 0 (-0.02) 0.02 0 0 0)) 0 = Some (lm3 0 0 0) \<and>
      lm_y (lm3 0 0 0) = 0 \<and> depth s = 1) \<and>
   (\<exists>s d'. detect GestureDetector_init (Some (axis_hand 1 (-0.02) 0.02 0 0 0)) = Inr (s, d') \<and>
      gesture s = CLOSED_FIST \<and>
      lm_at (landmarks (axis_hand 1 (-0.02) 0.02 0 0 0)) 0 = Some (lm3 0 1 0) \<and>
      lm_y (lm3 0 1 0) = 1 \<and> depth s = 0)"
proof -
  have g: "gesture (createState CLOSED_FIST c True x md) = CLOSED_FIST" for c x md
    by (simp add: createState_def)
  have y: "lm_y (lm3 0 0 0) = 0" "lm_y (lm3 0 1 0) = 1" by (simp_all add: lm3_def)
  note top = detect_fist_hand [of GestureDetector_init 0]
  note bottom = detect_fist_hand [of GestureDetector_init 1]
  from C7_fist_depth [OF top g lm_at_axis_hand(1)] y(1) top g lm_at_axis_hand(1) [of 0]
  have "\<exists>s d'. detect GestureDetector_init (Some (axis_hand 0 (-0.02) 0.02 0 0 0)) = Inr (s, d') \<and>
      gesture s = CLOSED_FIST \<and>
      lm_at (landmarks (axis_hand 0 (-0.02) 0.02 0 0 0)) 0 = Some (lm3 0 0 0) \<and>
      lm_y (lm3 0 0 0) = 0 \<and> depth s = 1"
    by blast
  moreover
  from C7_fist_depth [OF bottom g lm_at_axis_hand(1)] y(2) bottom g lm_at_axis_hand(1) [of 1]
  have "\<exists>s d'. detect GestureDetector_init (Some (axis_hand 1 (-0.02) 0.02 0 0 0)) = Inr (s, d') \<and>
      gesture s = CLOSED_FIST \<and>
      lm_at (landmarks (axis_hand 1 (-0.02) 0.02 0 0 0)) 0 = Some (lm3 0 1 0) \<and>
      lm_y (lm3 0 1 0) = 1 \<and> depth s = 0"
    by blast
  ultimately show ?thesis by blast
qed

text \<open>
  Pinch distance exactly at the threshold, and pinch confidence exactly 0.5: both hands
  resolve to the open hand.
\<close>

lemma detect_threshold_hand:
  "detect d (Some (axis_hand 0 0 0.05 0.1 0.15 0.2)) =
     Inr (createState OPEN_HAND (5/6) False 0.5 None, updateHistory d OPEN_HAND)"
  by (simp add: detect_def detect_axis lm_at_axis_hand bindE_def Let_def
      pinchThreshold_def fistThreshold_def spreadThreshold_def)

lemma detect_half_hand:
  "detect d (Some (axis_hand 0 0 0.025 0.1 0.15 0.2)) =
     Inr (createState OPEN_HAND (17/24) False 0.5 None, updateHistory d OPEN_HAND)"
  by (simp add: detect_def detect_axis lm_at_axis_hand bindE_def Let_def
      pinchThreshold_def fistThreshold_def spreadThreshold_def)

theorem C5_threshold_is_strict_witness:
  "detectPinch (landmarks (axis_hand 0 0 0.05 0.1 0.15 0.2)) = Inr (0, pinchThreshold) \<and>
   detectPinch (landmarks (axis_hand 0 0 0.025 0.1 0.15 0.2)) = Inr (0.5, 0.025) \<and>
   (\<exists>s d'. detect GestureDetector_init (Some (axis_hand 0 0 0.05 0.1 0.15 0.2)) = Inr (s, d') \<and>
      gesture s \<noteq> PINCH) \<and>
   (\<exists>s d'. detect GestureDetector_init (Some (axis_hand 0 0 0.025 0.1 0.15 0.2)) = Inr (s, d') \<and>
      gesture s \<noteq> PINCH)"
proof -
  have p1: "detectPinch (landmarks (axis_hand 0 0 0.05 0.1 0.15 0.2)) = Inr (0, pinchThreshold)"
    and p2: "detectPinch (landmarks (axis_hand 0 0 0.025 0.1 0.15 0.2)) = Inr (0.5, 0.025)"
    by (simp_all add: detect_axis pinchThreshold_def)
  have "gesture (createState OPEN_HAND (5/6) False 0.5 None) \<noteq> PINCH"
    using C5_threshold_is_strict [OF p1 detectFist_axis detectSpread_axis detectOpen_axis detect_threshold_hand [of GestureDetector_init]]
    by simp
  moreover have "gesture (createState OPEN_HAND (17/24) False 0.5 None) \<noteq> PINCH"
    using C5_threshold_is_strict [OF p2 detectFist_axis detectSpread_axis detectOpen_axis detect_half_hand [of GestureDetector_init]]
    by simp
  ultimately show ?thesis
    using p1 p2 detect_threshold_hand [of GestureDetector_init]
      detect_half_hand [of GestureDetector_init]
    by blast
qed

text \<open>
  The claim as stated fails: a hand cut short to 20 landmarks makes \<^verbatim>\<open>detect\<close> throw.
\<close>

theorem C3_detect_total_from_21_landmarks_counterexample:
  "detect GestureDetector_init (Some short_hand) = Inl TypeError"
  by (simp add: detect_def detectPinch_def detectFist_def bindE_def Let_def lm_at_def
      short_hand_def hand_of_def lm3_def)

theorem C3_detect_total_from_21_landmarks_witness:
  "detect GestureDetector_init None = Inr (createState NONE 0 False 0.5 None, GestureDetector_init) \<and>
   21 \<le> length (landmarks (axis_hand 0 0 0 0 0 0)) \<and>
   (\<exists>s d'. detect GestureDetector_init (Some (axis_hand 0 0 0 0 0 0)) = Inr (s, d')) \<and>
   length (landmarks short_hand) < 21 \<and>
   detect GestureDetector_init (Some short_hand) = Inl TypeError"
proof -
  have l1: "21 \<le> length (landmarks (axis_hand 0 0 0 0 0 0))" by simp
  have l2: "length (landmarks short_hand) < 21" by (simp add: short_hand_def hand_of_def)
  from C3_detect_total_from_21_landmarks [of GestureDetector_init "axis_hand 0 0 0 0 0 0"] l1
    C3_detect_total_from_21_landmarks [of GestureDetector_init short_hand] l2
  show ?thesis by blast
qed

subsection \<open>The accumulators keep their invariants\<close>

lemma spaced2D_snoc:
  "ps \<noteq> [] \<Longrightarrow> spaced2D ps \<Longrightarrow> minDistance \<le> getDistance (last ps) q \<Longrightarrow> spaced2D (ps @ [q])"
  by (induction ps rule: spaced2D.induct) auto

lemma spaced3D_snoc:
  "ps \<noteq> [] \<Longrightarrow> spaced3D ps \<Longrightarrow> minDistance \<le> distanceTo (last ps) q \<Longrightarrow> spaced3D (ps @ [q])"
  by (induction ps rule: spaced3D.induct) auto

lemma push_point_bounds:
  "length buf \<le> bufferSize \<Longrightarrow>
   push_point buf p \<noteq> [] \<and> length (push_point buf p) \<le> bufferSize"
  by (cases buf) (auto simp: push_point_def Let_def bufferSize_def)

lemma inv2D_init: "inv2D Canvas2D_init"
  by (simp add: inv2D_def Canvas2D_init_def)

lemma inv2D_startDrawing: "inv2D c \<Longrightarrow> inv2D (Canvas2D_startDrawing c p)"
  by (simp add: inv2D_def Canvas2D_startDrawing_def bufferSize_def)

lemma inv2D_stopDrawing: "inv2D c \<Longrightarrow> inv2D (Canvas2D_stopDrawing c)"
  by (simp add: inv2D_def Canvas2D_stopDrawing_def drawNeonLine_def)

lemma inv2D_clear: "inv2D c \<Longrightarrow> inv2D (Canvas2D_clear c)"
  by (simp add: inv2D_def Canvas2D_clear_def Canvas2D_stopDrawing_def drawNeonLine_def)

lemma inv2D_drawTo:
  assumes "inv2D c"
  shows "inv2D (Canvas2D_drawTo c p)"
proof (cases "c_isDrawing c")
  case False
  with assms show ?thesis
    by (simp add: Canvas2D_drawTo_def split: option.splits)
next
  case True
  with assms obtain l where l: "c_lastPoint c = Some l" "l = last (smoothedPoints c)"
    and ne: "smoothedPoints c \<noteq> []" and len: "length (pointBuffer c) \<le> bufferSize"
    and sp: "spaced2D (smoothedPoints c)" and rd: "list_all spaced2D (rendered c)"
    by (auto simp: inv2D_def)
  let ?buf = "push_point (pointBuffer c) p"
  let ?q = "applySmoothing ?buf l p"
  note pb = push_point_bounds [OF len, of p]
  show ?thesis
  proof (cases "getDistance l ?q < minDistance")
    case near: True
    with True l have "Canvas2D_drawTo c p = c\<lparr>pointBuffer := ?buf\<rparr>"
      by (simp add: Canvas2D_drawTo_def Let_def)
    with True l ne sp rd pb show ?thesis by (simp add: inv2D_def)
  next
    case far: False
    then have "minDistance \<le> getDistance (last (smoothedPoints c)) ?q" using l by simp
    from spaced2D_snoc [OF ne sp this] have sp': "spaced2D (smoothedPoints c @ [?q])" .
    from far True l have
      "Canvas2D_drawTo c p =
         c\<lparr>pointBuffer := ?buf, smoothedPoints := smoothedPoints c @ [?q],
           rendered := (if length (smoothedPoints c @ [?q]) \<ge> 2
                        then drawNeonLine (rendered c) (smoothedPoints c @ [?q])
                        else rendered c),
           c_lastPoint := Some ?q\<rparr>"
      by (simp add: Canvas2D_drawTo_def Let_def)
    with True sp' rd pb show ?thesis by (simp add: inv2D_def drawNeonLine_def)
  qed
qed

lemma inv2D_apply: "inv2D c \<Longrightarrow> inv2D (apply2D c op)"
  by (cases op) (simp_all add: inv2D_startDrawing inv2D_drawTo inv2D_stopDrawing inv2D_clear)

lemma inv2D_foldl: "inv2D c \<Longrightarrow> inv2D (foldl apply2D c ops)"
  by (induction ops arbitrary: c) (simp_all add: inv2D_apply)

lemma inv2D_run: "inv2D (run2D ops)"
  unfolding run2D_def by (rule inv2D_foldl [OF inv2D_init])

lemma inv3D_new: "inv3D NeonLine3D_new"
  by (simp add: inv3D_def NeonLine3D_new_def)

lemma inv3D_startDrawing: "inv3D (NeonLine3D_startDrawing l p)"
  by (simp add: inv3D_def NeonLine3D_startDrawing_def updateGeometry_def)

lemma inv3D_stopDrawing: "inv3D l \<Longrightarrow> inv3D (NeonLine3D_stopDrawing l)"
  by (simp add: inv3D_def NeonLine3D_stopDrawing_def)

lemma inv3D_clear: "inv3D (NeonLine3D_clear l)"
  by (simp add: inv3D_def NeonLine3D_clear_def updateGeometry_def)

lemma inv3D_addPoint:
  assumes "inv3D l"
  shows "inv3D (NeonLine3D_addPoint l p)"
proof (cases "l_isDrawing l")
  case False
  with assms show ?thesis
    by (simp add: NeonLine3D_addPoint_def split: option.splits)
next
  case True
  with assms obtain lp where lp: "l_lastPoint l = Some lp" "lp = last (points l)"
    and ne: "points l \<noteq> []" and sp: "spaced3D (points l)"
    by (auto simp: inv3D_def)
  let ?q = "NeonLine3D_interpolate lp p smoothingFactor"
  show ?thesis
  proof (cases "distanceTo lp ?q < minDistance")
    case near: True
    with True lp have "NeonLine3D_addPoint l p = l"
      by (simp add: NeonLine3D_addPoint_def Let_def)
    with assms show ?thesis by simp
  next
    case far: False
    then have "minDistance \<le> distanceTo (last (points l)) ?q" using lp by simp
    from spaced3D_snoc [OF ne sp this] have sp': "spaced3D (points l @ [?q])" .
    from far True lp have
      "NeonLine3D_addPoint l p =
         updateGeometry (l\<lparr>points := points l @ [?q], l_lastPoint := Some ?q\<rparr>)"
      by (simp add: NeonLine3D_addPoint_def Let_def)
    with True sp' show ?thesis by (simp add: inv3D_def updateGeometry_def)
  qed
qed

lemma inv3D_apply: "inv3D l \<Longrightarrow> inv3D (apply3D l op)"
  by (cases op) (simp_all add: inv3D_startDrawing inv3D_addPoint inv3D_stopDrawing inv3D_clear)

lemma inv3D_foldl: "inv3D l \<Longrightarrow> inv3D (foldl apply3D l ops)"
  by (induction ops arbitrary: l) (simp_all add: inv3D_apply)

lemma inv3D_run: "inv3D (run3D ops)"
  unfolding run3D_def by (rule inv3D_foldl [OF inv3D_new])

lemma invScene_new: "invScene (Scene3D_new w h)"
  by (simp add: invScene_def Scene3D_new_def)

lemma invScene_clear: "invScene (Scene3D_clear sc)"
  by (simp add: invScene_def Scene3D_clear_def)

lemma current_line_split:
  assumes "Suc i = length xs"
  obtains ys y where "xs = ys @ [y]" "i = length ys"
  using assms by (cases xs rule: rev_cases) auto

lemma invScene_stopDrawing:
  assumes "invScene sc"
  shows "invScene (Scene3D_stopDrawing sc)"
proof (cases "currentLine sc")
  case None
  with assms show ?thesis by (simp add: Scene3D_stopDrawing_def)
next
  case (Some i)
  with assms have "Suc i = length (lines sc)" by (simp add: invScene_def)
  then obtain ys y where ys: "lines sc = ys @ [y]" "i = length ys"
    by (rule current_line_split)
  with assms Some have "list_all inv3D ys" "inv3D y"
    by (simp_all add: invScene_def)
  then show ?thesis using Some ys
    by (simp add: invScene_def Scene3D_stopDrawing_def inv3D_stopDrawing)
qed

lemma invScene_addPoint:
  assumes "invScene sc"
  shows "invScene (Scene3D_addPoint sc x y z)"
proof (cases "currentLine sc")
  case None
  with assms show ?thesis by (simp add: Scene3D_addPoint_def)
next
  case (Some i)
  with assms have "Suc i = length (lines sc)" by (simp add: invScene_def)
  then obtain ys l where ys: "lines sc = ys @ [l]" "i = length ys"
    by (rule current_line_split)
  with assms Some have "list_all inv3D ys" "inv3D l"
    by (simp_all add: invScene_def)
  then show ?thesis using Some ys
    by (simp add: invScene_def Scene3D_addPoint_def inv3D_addPoint Let_def)
qed

lemma invScene_startDrawing: "invScene sc \<Longrightarrow> invScene (Scene3D_startDrawing sc x y z)"
  by (simp add: invScene_def Scene3D_startDrawing_def Let_def inv3D_startDrawing)

lemma invScene_apply: "invScene sc \<Longrightarrow> invScene (applyScene sc op)"
  by (cases op)
    (simp_all add: invScene_startDrawing invScene_addPoint invScene_stopDrawing invScene_clear)

lemma invScene_foldl: "invScene sc \<Longrightarrow> invScene (foldl applyScene sc ops)"
  by (induction ops arbitrary: sc) (simp_all add: invScene_apply)

lemma invScene_run: "invScene (runScene w h ops)"
  unfolding runScene_def by (rule invScene_foldl [OF invScene_new])

subsection \<open>Operations out of sequence\<close>

text \<open>
  Claim C9. Whatever sequence of operations a caller applies to the 2D canvas, to a 3D line
  or to the 3D scene, consecutive committed points of every stroke they hold (the open
  stroke and the rendered polylines of the canvas, the points of every line) are at least
  \<open>minDistance\<close> apart.
\<close>

theorem C9_points_spaced:
  "spaced2D (smoothedPoints (run2D ops2)) \<and>
   list_all spaced2D (rendered (run2D ops2)) \<and>
   spaced3D (points (run3D ops3)) \<and>
   list_all (\<lambda>l. spaced3D (points l)) (lines (runScene w h opsS))"
proof -
  from inv2D_run [of ops2] have
    "spaced2D (smoothedPoints (run2D ops2))" "list_all spaced2D (rendered (run2D ops2))"
    by (simp_all add: inv2D_def)
  moreover from inv3D_run [of ops3] have "spaced3D (points (run3D ops3))"
    by (simp add: inv3D_def)
  moreover from invScene_run [of w h opsS] have "list_all inv3D (lines (runScene w h opsS))"
    by (simp add: invScene_def)
  then have "list_all (\<lambda>l. spaced3D (points l)) (lines (runScene w h opsS))"
    by (simp add: list_all_iff inv3D_def)
  ultimately show ?thesis by blast
qed

lemma stopDrawing2D_idem:
  "Canvas2D_stopDrawing (Canvas2D_stopDrawing c) = Canvas2D_stopDrawing c"
  by (simp add: Canvas2D_stopDrawing_def)

lemma stopDrawing3D_idem:
  "NeonLine3D_stopDrawing (NeonLine3D_stopDrawing l) = NeonLine3D_stopDrawing l"
  by (simp add: NeonLine3D_stopDrawing_def)

lemma stopDrawingScene_idem:
  "Scene3D_stopDrawing (Scene3D_stopDrawing sc) = Scene3D_stopDrawing sc"
  by (simp add: Scene3D_stopDrawing_def split: option.splits)

lemma closed2D_noop:
  assumes "inv2D c" "\<not> c_isDrawing c"
  shows "Canvas2D_drawTo c p = c" "Canvas2D_stopDrawing c = c"
  using assms by (simp_all add: inv2D_def Canvas2D_drawTo_def Canvas2D_stopDrawing_def)

lemma closed3D_noop:
  assumes "inv3D l" "\<not> l_isDrawing l"
  shows "NeonLine3D_addPoint l p = l" "NeonLine3D_stopDrawing l = l"
  using assms by (simp_all add: inv3D_def NeonLine3D_addPoint_def NeonLine3D_stopDrawing_def)

lemma closedScene_noop:
  assumes "currentLine sc = None"
  shows "Scene3D_addPoint sc x y z = sc" "Scene3D_stopDrawing sc = sc"
  using assms by (simp_all add: Scene3D_addPoint_def Scene3D_stopDrawing_def)

lemma addPoint_after_close:
  "Canvas2D_drawTo (Canvas2D_stopDrawing c) p = Canvas2D_stopDrawing c"
  "Canvas2D_drawTo (Canvas2D_clear c) p = Canvas2D_clear c"
  "NeonLine3D_addPoint (NeonLine3D_stopDrawing l) v = NeonLine3D_stopDrawing l"
  "NeonLine3D_addPoint (NeonLine3D_clear l) v = NeonLine3D_clear l"
  "Scene3D_addPoint (Scene3D_stopDrawing sc) x y z = Scene3D_stopDrawing sc"
  "Scene3D_addPoint (Scene3D_clear sc) x y z = Scene3D_clear sc"
  by (simp_all add: Canvas2D_drawTo_def Canvas2D_stopDrawing_def Canvas2D_clear_def
      NeonLine3D_addPoint_def NeonLine3D_stopDrawing_def NeonLine3D_clear_def
      updateGeometry_def Scene3D_addPoint_def Scene3D_stopDrawing_def Scene3D_clear_def
      split: option.splits)

text \<open>
  Claim C8. In every state that the operations of the 2D canvas, or of a 3D line, reach
  with no stroke open, \<^verbatim>\<open>addPoint\<close> and \<^verbatim>\<open>stopDrawing\<close> return the state unchanged; so do
  \<^verbatim>\<open>addPoint\<close> and \<^verbatim>\<open>stopDrawing\<close> of a scene that has no current line. None of them can
  throw, and \<^verbatim>\<open>stopDrawing\<close> is idempotent in every state. After \<^verbatim>\<open>stopDrawing\<close> or
  \<^verbatim>\<open>clear\<close>, in any state, \<^verbatim>\<open>addPoint\<close> is a no-op.
\<close>

theorem C8_out_of_sequence_noop:
  "(\<not> c_isDrawing (run2D ops2) \<longrightarrow>
      Canvas2D_drawTo (run2D ops2) p = run2D ops2 \<and>
      Canvas2D_stopDrawing (run2D ops2) = run2D ops2) \<and>
   Canvas2D_stopDrawing (Canvas2D_stopDrawing c) = Canvas2D_stopDrawing c \<and>
   (\<not> l_isDrawing (run3D ops3) \<longrightarrow>
      NeonLine3D_addPoint (run3D ops3) v = run3D ops3 \<and>
      NeonLine3D_stopDrawing (run3D ops3) = run3D ops3) \<and>
   NeonLine3D_stopDrawing (NeonLine3D_stopDrawing l) = NeonLine3D_stopDrawing l \<and>
   (currentLine sc = None \<longrightarrow>
      Scene3D_addPoint sc x y z = sc \<and> Scene3D_stopDrawing sc = sc) \<and>
   Scene3D_stopDrawing (Scene3D_stopDrawing sc) = Scene3D_stopDrawing sc \<and>
   Canvas2D_drawTo (Canvas2D_stopDrawing c) p = Canvas2D_stopDrawing c \<and>
   Canvas2D_drawTo (Canvas2D_clear c) p = Canvas2D_clear c \<and>
   NeonLine3D_addPoint (NeonLine3D_stopDrawing l) v = NeonLine3D_stopDrawing l \<and>
   NeonLine3D_addPoint (NeonLine3D_clear l) v = NeonLine3D_clear l \<and>
   Scene3D_addPoint (Scene3D_stopDrawing sc) x y z = Scene3D_stopDrawing sc \<and>
   Scene3D_addPoint (Scene3D_clear sc) x y z = Scene3D_clear sc"
  using closed2D_noop [OF inv2D_run] closed3D_noop [OF inv3D_run] closedScene_noop
  by (simp add: stopDrawing2D_idem stopDrawing3D_idem stopDrawingScene_idem
      addPoint_after_close)

subsection \<open>The 2D pipeline is the specified one\<close>

lemma foldl_point_sum:
  "foldl (\<lambda>acc p. \<lparr>px = px acc + px p, py = py acc + py p\<rparr>) a buf =
     \<lparr>px = px a + sum_list (map px buf), py = py a + sum_list (map py buf)\<rparr>"
  by (induction buf arbitrary: a) (simp_all add: add.assoc)

lemma calculateMovingAverage_mean: "calculateMovingAverage buf = spec_mean2D buf"
  by (simp add: calculateMovingAverage_def spec_mean2D_def foldl_point_sum)

lemma interpolate_lerp: "Canvas2D_interpolate a b t = spec_lerp2D a b t"
  by (simp add: Canvas2D_interpolate_def spec_lerp2D_def)

lemma push_point_spec: "push_point buf p = spec_push buf p"
  by (simp add: push_point_def spec_push_def bufferSize_def)

lemma length_three: "length xs = 3 \<Longrightarrow> \<exists>a b c. xs = [a, b, c]"
  by (auto simp: numeral_3_eq_3 length_Suc_conv)

lemma last_three:
  assumes "3 \<le> length buf"
  obtains a b c where "drop (length buf - 3) buf = [a, b, c]"
    "buf ! (length buf - 3) = a" "buf ! (length buf - 2) = b" "buf ! (length buf - 1) = c"
proof -
  let ?n = "length buf - 3"
  have "length (drop ?n buf) = 3" using assms by simp
  then obtain a b c where abc: "drop ?n buf = [a, b, c]"
    using length_three by blast
  have "drop ?n buf ! 0 = a" "drop ?n buf ! 1 = b" "drop ?n buf ! 2 = c"
    by (simp_all add: abc)
  moreover from assms have "?n + 0 = length buf - 3" "?n + 1 = length buf - 2"
    "?n + 2 = length buf - 1"
    by simp_all
  ultimately have "buf ! (length buf - 3) = a" "buf ! (length buf - 2) = b"
    "buf ! (length buf - 1) = c"
    using assms by (metis nth_drop diff_le_self)+
  with abc show ?thesis by (rule that)
qed

lemma weighted_loop_three:
  "weighted_loop [a, b, c] 0 (0, 0, 0) =
     (0.1 * px a + 0.3 * px b + 0.6 * px c, 0.1 * py a + 0.3 * py b + 0.6 * py c, 1)"
  by (simp add: weight_at_def weights_def Let_def numeral_2_eq_2)

lemma cubicInterpolate_weighted:
  assumes "3 \<le> length buf"
  shows "cubicInterpolate buf point = spec_lerp2D (spec_weighted2D buf) point 0.7"
proof -
  from assms obtain a b c where abc: "drop (length buf - 3) buf = [a, b, c]"
    "buf ! (length buf - 3) = a" "buf ! (length buf - 2) = b" "buf ! (length buf - 1) = c"
    by (rule last_three)
  have w: "spec_weighted2D buf =
      \<lparr>px = 0.1 * px a + 0.3 * px b + 0.6 * px c, py = 0.1 * py a + 0.3 * py b + 0.6 * py c\<rparr>"
    unfolding spec_weighted2D_def Let_def abc(2-4) by (rule refl)
  from assms have "\<not> length buf < 3" by simp
  then have "cubicInterpolate buf point =
      Canvas2D_interpolate
        \<lparr>px = 0.1 * px a + 0.3 * px b + 0.6 * px c, py = 0.1 * py a + 0.3 * py b + 0.6 * py c\<rparr>
        point 0.7"
    by (simp add: cubicInterpolate_def Let_def abc(1) weighted_loop_three
        del: weighted_loop.simps)
  then show ?thesis by (simp only: w interpolate_lerp)
qed

lemma applySmoothing_spec:
  assumes "buf \<noteq> []" "length buf \<le> bufferSize"
  shows "applySmoothing (push_point buf p) l p = spec_result2D l buf p"
proof -
  let ?b = "push_point buf p"
  from assms have len: "2 \<le> length ?b" "length ?b \<le> 5"
    by (cases buf; auto simp: push_point_def Let_def bufferSize_def)+
  show ?thesis
  proof (cases "length ?b = 5")
    case True
    then have "3 \<le> length ?b" by simp
    from cubicInterpolate_weighted [OF this] True show ?thesis
      by (simp add: applySmoothing_def spec_result2D_def Let_def bufferSize_def
          calculateMovingAverage_mean interpolate_lerp push_point_spec [symmetric])
  next
    case False
    with len show ?thesis
      by (simp add: applySmoothing_def spec_result2D_def Let_def bufferSize_def
          calculateMovingAverage_mean interpolate_lerp push_point_spec [symmetric])
  qed
qed

lemma drawTo_open:
  assumes "c_isDrawing c" "c_lastPoint c = Some l"
  shows "Canvas2D_drawTo c p =
    (let buf = push_point (pointBuffer c) p; q = applySmoothing buf l p
     in if getDistance l q < minDistance then c\<lparr>pointBuffer := buf\<rparr>
        else c\<lparr>pointBuffer := buf, smoothedPoints := smoothedPoints c @ [q],
               rendered := (if length (smoothedPoints c @ [q]) \<ge> 2
                            then drawNeonLine (rendered c) (smoothedPoints c @ [q])
                            else rendered c),
               c_lastPoint := Some q\<rparr>)"
  using assms by (simp add: Canvas2D_drawTo_def Let_def)

lemma addPoint_open:
  assumes "l_isDrawing line" "l_lastPoint line = Some lp"
  shows "NeonLine3D_addPoint line v =
    (let q = lerp lp v smoothingFactor
     in if distanceTo lp q < minDistance then line
        else updateGeometry (line\<lparr>points := points line @ [q], l_lastPoint := Some q\<rparr>))"
  using assms by (simp add: NeonLine3D_addPoint_def NeonLine3D_interpolate_def Let_def)

lemma lerp_spec: "lerp a b t = spec_lerp3D a b t"
  by (simp add: lerp_def spec_lerp3D_def)

text \<open>
  Claim C2, as the code has it. On the 2D canvas, in every state that its operations reach
  with a stroke open, \<^verbatim>\<open>drawTo\<close> pushes the raw point into the capacity-5 buffer and
  commits, unless the jitter gate rejects it, exactly the point of the specified pipeline
  (mean of the buffer, interpolation from the last committed point by \<open>smoothingFactor\<close>,
  and at a full buffer the blend with the weighted last three points). On a 3D line
  \<^verbatim>\<open>addPoint\<close> keeps no buffer: the candidate is the interpolation from the last committed
  point toward the raw point itself by \<open>smoothingFactor\<close>.
\<close>

theorem C2_point_pipeline:
  "(c = run2D ops \<and> c_isDrawing c \<longrightarrow>
     (\<exists>l. c_lastPoint c = Some l \<and>
        pointBuffer (Canvas2D_drawTo c p) = spec_push (pointBuffer c) p \<and>
        smoothedPoints (Canvas2D_drawTo c p) =
          (if getDistance l (spec_result2D l (pointBuffer c) p) < minDistance
           then smoothedPoints c
           else smoothedPoints c @ [spec_result2D l (pointBuffer c) p]) \<and>
        c_lastPoint (Canvas2D_drawTo c p) =
          Some (if getDistance l (spec_result2D l (pointBuffer c) p) < minDistance
                then l else spec_result2D l (pointBuffer c) p))) \<and>
   (l_isDrawing line \<and> l_lastPoint line = Some lp \<longrightarrow>
      points (NeonLine3D_addPoint line v) =
        (if distanceTo lp (spec_lerp3D lp v smoothingFactor) < minDistance
         then points line
         else points line @ [spec_lerp3D lp v smoothingFactor]) \<and>
      l_lastPoint (NeonLine3D_addPoint line v) =
        Some (if distanceTo lp (spec_lerp3D lp v smoothingFactor) < minDistance
              then lp else spec_lerp3D lp v smoothingFactor))"
proof (intro conjI impI)
  assume "c = run2D ops \<and> c_isDrawing c"
  then have "c = run2D ops" and dr: "c_isDrawing c" by blast+
  then have inv: "inv2D c" by (simp add: inv2D_run)
  from inv dr obtain l where l: "c_lastPoint c = Some l"
    and buf: "pointBuffer c \<noteq> []" "length (pointBuffer c) \<le> bufferSize"
    by (auto simp: inv2D_def)
  note eq = drawTo_open [OF dr l, of p] applySmoothing_spec [OF buf, of p l]
  have "pointBuffer (Canvas2D_drawTo c p) = spec_push (pointBuffer c) p"
    by (simp add: eq Let_def push_point_spec)
  moreover have "smoothedPoints (Canvas2D_drawTo c p) =
          (if getDistance l (spec_result2D l (pointBuffer c) p) < minDistance
           then smoothedPoints c
           else smoothedPoints c @ [spec_result2D l (pointBuffer c) p])"
    by (simp add: eq Let_def)
  moreover have "c_lastPoint (Canvas2D_drawTo c p) =
          Some (if getDistance l (spec_result2D l (pointBuffer c) p) < minDistance
                then l else spec_result2D l (pointBuffer c) p)"
    by (simp add: eq Let_def l)
  ultimately show "\<exists>l. c_lastPoint c = Some l \<and>
        pointBuffer (Canvas2D_drawTo c p) = spec_push (pointBuffer c) p \<and>
        smoothedPoints (Canvas2D_drawTo c p) =
          (if getDistance l (spec_result2D l (pointBuffer c) p) < minDistance
           then smoothedPoints c
           else smoothedPoints c @ [spec_result2D l (pointBuffer c) p]) \<and>
        c_lastPoint (Canvas2D_drawTo c p) =
          Some (if getDistance l (spec_result2D l (pointBuffer c) p) < minDistance
                then l else spec_result2D l (pointBuffer c) p)"
    using l by blast
next
  assume a: "l_isDrawing line \<and> l_lastPoint line = Some lp"
  then have eq: "NeonLine3D_addPoint line v =
    (let q = lerp lp v smoothingFactor
     in if distanceTo lp q < minDistance then line
        else updateGeometry (line\<lparr>points := points line @ [q], l_lastPoint := Some q\<rparr>))"
    by (simp add: addPoint_open)
  show "points (NeonLine3D_addPoint line v) =
        (if distanceTo lp (spec_lerp3D lp v smoothingFactor) < minDistance
         then points line
         else points line @ [spec_lerp3D lp v smoothingFactor])"
    by (simp add: eq Let_def lerp_spec updateGeometry_def)
  show "l_lastPoint (NeonLine3D_addPoint line v) =
        Some (if distanceTo lp (spec_lerp3D lp v smoothingFactor) < minDistance
              then lp else spec_lerp3D lp v smoothingFactor)"
    using a by (simp add: eq Let_def lerp_spec updateGeometry_def)
qed

subsection \<open>The jitter gate: points near the last committed point\<close>

lemma getDistance_cmod: "getDistance a b = cmod (to_complex b - to_complex a)"
  by (simp add: getDistance_def to_complex_def cmod_def power2_eq_square Let_def)

lemma to_complex_sum:
  "Complex (sum_list (map px buf)) (sum_list (map py buf)) = sum_list (map to_complex buf)"
  by (induction buf) (simp_all add: to_complex_def complex_eq_iff)

lemma to_complex_mean:
  "to_complex (spec_mean2D buf) = sum_list (map to_complex buf) / of_nat (length buf)"
  by (simp add: spec_mean2D_def to_complex_def to_complex_sum [symmetric] complex_eq_iff)

lemma to_complex_lerp:
  "to_complex (spec_lerp2D a b t) =
     (1 - t) *\<^sub>R to_complex a + t *\<^sub>R to_complex b"
  by (simp add: spec_lerp2D_def to_complex_def complex_eq_iff algebra_simps)

lemma to_complex_weighted:
  "to_complex \<lparr>px = 0.1 * px a + 0.3 * px b + 0.6 * px c,
               py = 0.1 * py a + 0.3 * py b + 0.6 * py c\<rparr> =
     0.1 *\<^sub>R to_complex a + 0.3 *\<^sub>R to_complex b + 0.6 *\<^sub>R to_complex c"
  by (simp add: to_complex_def complex_eq_iff)

lemma deviation_of_sum:
  "cmod (sum_list zs - of_nat (length zs) * L) \<le> sum_list (map (\<lambda>z. cmod (z - L)) zs)"
proof (induction zs)
  case Nil
  then show ?case by simp
next
  case (Cons z zs)
  have "sum_list (z # zs) - of_nat (length (z # zs)) * L =
      (z - L) + (sum_list zs - of_nat (length zs) * L)"
    by (simp add: algebra_simps)
  then have "cmod (sum_list (z # zs) - of_nat (length (z # zs)) * L) \<le>
      cmod (z - L) + cmod (sum_list zs - of_nat (length zs) * L)"
    by (simp only: norm_triangle_ineq)
  with Cons.IH show ?case by simp
qed

lemma sum_below:
  fixes f :: "'a \<Rightarrow> real"
  assumes "zs \<noteq> []" "\<forall>z\<in>set zs. f z < m"
  shows "sum_list (map f zs) < of_nat (length zs) * m"
  using assms
proof (induction zs rule: list_nonempty_induct)
  case (single z)
  then show ?case by simp
next
  case (cons z zs)
  then have "f z < m" "sum_list (map f zs) < of_nat (length zs) * m" by simp_all
  then show ?case by (simp add: algebra_simps)
qed

lemma mean_in_ball:
  assumes "zs \<noteq> []" "\<forall>z\<in>set zs. cmod (z - L) < m"
  shows "cmod (sum_list zs / of_nat (length zs) - L) < m"
proof -
  let ?n = "length zs"
  from assms(1) have n: "0 < real ?n" by simp
  have "sum_list zs / of_nat ?n - L = (sum_list zs - of_nat ?n * L) / of_nat ?n"
    using n by (simp add: field_simps)
  then have "cmod (sum_list zs / of_nat ?n - L) = cmod (sum_list zs - of_nat ?n * L) / real ?n"
    by (simp add: norm_divide)
  also have "\<dots> \<le> sum_list (map (\<lambda>z. cmod (z - L)) zs) / real ?n"
    using deviation_of_sum [of zs L] n by (simp add: divide_right_mono)
  also have "\<dots> < m"
    using sum_below [OF assms(1), of "\<lambda>z. cmod (z - L)" m] assms(2) n
    by (simp add: pos_divide_less_eq mult.commute)
  finally show ?thesis .
qed

lemma lerp_in_ball:
  assumes "cmod (a - L) < m" "cmod (b - L) < m" "0 \<le> t" "t \<le> 1"
  shows "cmod ((1 - t) *\<^sub>R a + t *\<^sub>R b - L) < m"
proof -
  have "(1 - t) *\<^sub>R a + t *\<^sub>R b - L = (1 - t) *\<^sub>R (a - L) + t *\<^sub>R (b - L)"
    by (simp add: algebra_simps)
  then have "cmod ((1 - t) *\<^sub>R a + t *\<^sub>R b - L) \<le>
      cmod ((1 - t) *\<^sub>R (a - L)) + cmod (t *\<^sub>R (b - L))"
    by (simp only: norm_triangle_ineq)
  also have "\<dots> = (1 - t) * cmod (a - L) + t * cmod (b - L)"
    using assms(3,4) by simp
  also have "\<dots> < m"
    using assms by (intro convex_bound_lt) simp_all
  finally show ?thesis .
qed

lemma weighted_in_ball:
  assumes "cmod (a - L) < m" "cmod (b - L) < m" "cmod (c - L) < m"
  shows "cmod (0.1 *\<^sub>R a + 0.3 *\<^sub>R b + 0.6 *\<^sub>R c - L) < m"
proof -
  have "(0.1 + 0.3 + 0.6 :: real) *\<^sub>R L = L" by simp
  then have "0.1 *\<^sub>R L + 0.3 *\<^sub>R L + 0.6 *\<^sub>R L = L"
    by (simp only: scaleR_left_distrib)
  then have "0.1 *\<^sub>R a + 0.3 *\<^sub>R b + 0.6 *\<^sub>R c - L =
      0.1 *\<^sub>R (a - L) + 0.3 *\<^sub>R (b - L) + 0.6 *\<^sub>R (c - L)"
    by (simp only: scaleR_diff_right) (simp add: algebra_simps)
  then have "cmod (0.1 *\<^sub>R a + 0.3 *\<^sub>R b + 0.6 *\<^sub>R c - L) \<le>
      cmod (0.1 *\<^sub>R (a - L)) + cmod (0.3 *\<^sub>R (b - L)) + cmod (0.6 *\<^sub>R (c - L))"
    by (metis (no_types) norm_triangle_ineq norm_triangle_mono order_refl)
  also have "\<dots> = 0.1 * cmod (a - L) + 0.3 * cmod (b - L) + 0.6 * cmod (c - L)"
    by simp
  also have "\<dots> < m" using assms by simp
  finally show ?thesis .
qed

lemma set_push_point: "set (push_point buf p) \<subseteq> insert p (set buf)"
  by (cases buf) (auto simp: push_point_def Let_def)

lemma push_point_nonempty: "push_point buf p \<noteq> []"
  by (cases buf) (auto simp: push_point_def Let_def bufferSize_def)

lemma mean_near:
  assumes "buf \<noteq> []" "\<forall>q\<in>set buf. getDistance l q < m"
  shows "getDistance l (spec_mean2D buf) < m"
proof -
  from assms have "map to_complex buf \<noteq> []"
    "\<forall>z\<in>set (map to_complex buf). cmod (z - to_complex l) < m"
    by (simp_all add: getDistance_cmod)
  from mean_in_ball [OF this] show ?thesis
    by (simp add: getDistance_cmod to_complex_mean)
qed

lemma lerp_near:
  assumes "getDistance l a < m" "getDistance l b < m" "0 \<le> t" "t \<le> 1"
  shows "getDistance l (spec_lerp2D a b t) < m"
  using lerp_in_ball [of "to_complex a" "to_complex l" m "to_complex b" t] assms
  by (simp add: getDistance_cmod to_complex_lerp)

lemma weighted_near:
  assumes "3 \<le> length buf" "\<forall>q\<in>set buf. getDistance l q < m"
  shows "getDistance l (spec_weighted2D buf) < m"
proof -
  from assms(1) obtain a b c where abc: "drop (length buf - 3) buf = [a, b, c]"
    "buf ! (length buf - 3) = a" "buf ! (length buf - 2) = b" "buf ! (length buf - 1) = c"
    by (rule last_three)
  have w: "spec_weighted2D buf =
      \<lparr>px = 0.1 * px a + 0.3 * px b + 0.6 * px c, py = 0.1 * py a + 0.3 * py b + 0.6 * py c\<rparr>"
    unfolding spec_weighted2D_def Let_def abc(2-4) by (rule refl)
  have "set [a, b, c] \<subseteq> set buf" unfolding abc(1) [symmetric] by (rule set_drop_subset)
  with assms(2) have "getDistance l a < m" "getDistance l b < m" "getDistance l c < m"
    by auto
  then have "cmod (0.1 *\<^sub>R to_complex a + 0.3 *\<^sub>R to_complex b + 0.6 *\<^sub>R to_complex c
      - to_complex l) < m"
    by (intro weighted_in_ball) (simp_all only: getDistance_cmod)
  then show ?thesis
    by (simp only: w getDistance_cmod to_complex_weighted)
qed

lemma applySmoothing_near:
  assumes "buf \<noteq> []" "\<forall>q\<in>set buf. getDistance l q < m" "getDistance l p < m"
  shows "getDistance l (applySmoothing buf l p) < m"
proof -
  from assms(3) have "0 < m"
    unfolding getDistance_cmod by (rule le_less_trans [OF norm_ge_zero])
  then have self: "getDistance l l < m" by (simp add: getDistance_cmod)
  have sf: "0 \<le> smoothingFactor" "smoothingFactor \<le> 1" by (simp_all add: smoothingFactor_def)
  let ?i = "spec_lerp2D l (spec_mean2D buf) smoothingFactor"
  from lerp_near [OF self mean_near [OF assms(1,2)] sf]
  have i: "getDistance l ?i < m" .
  show ?thesis
  proof (cases "length buf = 1")
    case True
    with assms(3) show ?thesis by (simp add: applySmoothing_def)
  next
    case one: False
    show ?thesis
    proof (cases "bufferSize \<le> length buf")
      case True
      then have three: "3 \<le> length buf" by (simp add: bufferSize_def)
      from lerp_near [OF weighted_near [OF three assms(2)] i, of "0.7"]
      have "getDistance l (spec_lerp2D (spec_weighted2D buf) ?i 0.7) < m" by simp
      with one True show ?thesis
        by (simp add: applySmoothing_def Let_def calculateMovingAverage_mean interpolate_lerp
            cubicInterpolate_weighted [OF three])
    next
      case False
      with one i show ?thesis
        by (simp add: applySmoothing_def Let_def calculateMovingAverage_mean interpolate_lerp)
    qed
  qed
qed

lemma drawTo_near:
  assumes "c_isDrawing c" "c_lastPoint c = Some l"
    "\<forall>q\<in>set (pointBuffer c). getDistance l q < minDistance" "getDistance l p < minDistance"
  shows "Canvas2D_drawTo c p = c\<lparr>pointBuffer := push_point (pointBuffer c) p\<rparr>"
proof -
  let ?buf = "push_point (pointBuffer c) p"
  from assms(3,4) set_push_point [of "pointBuffer c" p]
  have "\<forall>q\<in>set ?buf. getDistance l q < minDistance" by auto
  from applySmoothing_near [OF push_point_nonempty this assms(4)]
  show ?thesis by (simp add: drawTo_open [OF assms(1,2)] Let_def)
qed

lemma drawTo_stationary:
  assumes "c_isDrawing c" "c_lastPoint c = Some l"
    "\<forall>q\<in>set (pointBuffer c). getDistance l q < minDistance"
    "\<forall>p\<in>set ps. getDistance l p < minDistance"
  shows "\<exists>buf. foldl Canvas2D_drawTo c ps = c\<lparr>pointBuffer := buf\<rparr>"
  using assms
proof (induction ps arbitrary: c)
  case Nil
  have "c = c\<lparr>pointBuffer := pointBuffer c\<rparr>" by simp
  then show ?case by (simp only: foldl_Nil) (rule exI)
next
  case (Cons p ps)
  let ?c = "c\<lparr>pointBuffer := push_point (pointBuffer c) p\<rparr>"
  from Cons.prems have step: "Canvas2D_drawTo c p = ?c"
    by (intro drawTo_near [of c l]) simp_all
  from Cons.prems set_push_point [of "pointBuffer c" p]
  have "\<forall>q\<in>set (pointBuffer ?c). getDistance l q < minDistance" by auto
  with Cons.prems have "\<exists>buf. foldl Canvas2D_drawTo ?c ps = ?c\<lparr>pointBuffer := buf\<rparr>"
    by (intro Cons.IH) simp_all
  with step show ?case by auto
qed

lemma distanceTo_lerp: "distanceTo a (lerp a b t) = \<bar>t\<bar> * distanceTo a b"
proof -
  have "(vx a - (vx a + (vx b - vx a) * t)) * (vx a - (vx a + (vx b - vx a) * t)) +
        (vy a - (vy a + (vy b - vy a) * t)) * (vy a - (vy a + (vy b - vy a) * t)) +
        (vz a - (vz a + (vz b - vz a) * t)) * (vz a - (vz a + (vz b - vz a) * t)) =
        t\<^sup>2 * ((vx a - vx b) * (vx a - vx b) + (vy a - vy b) * (vy a - vy b) +
              (vz a - vz b) * (vz a - vz b))"
    by (simp add: algebra_simps power2_eq_square)
  then show ?thesis
    by (simp add: distanceTo_def lerp_def Let_def real_sqrt_mult)
qed

lemma addPoint_near:
  assumes "l_isDrawing line" "l_lastPoint line = Some lp" "distanceTo lp v < minDistance"
  shows "NeonLine3D_addPoint line v = line"
proof -
  have "distanceTo lp (lerp lp v smoothingFactor) = smoothingFactor * distanceTo lp v"
    by (simp add: distanceTo_lerp smoothingFactor_def)
  also have "\<dots> \<le> distanceTo lp v"
    by (simp add: smoothingFactor_def distanceTo_def Let_def)
  finally have "distanceTo lp (lerp lp v smoothingFactor) < minDistance"
    using assms(3) by simp
  then show ?thesis by (simp add: addPoint_open [OF assms(1,2)] Let_def)
qed

lemma addPoint_stationary:
  assumes "l_isDrawing line" "l_lastPoint line = Some lp"
    "\<forall>v\<in>set vs. distanceTo lp v < minDistance"
  shows "foldl NeonLine3D_addPoint line vs = line"
  using assms by (induction vs) (simp_all add: addPoint_near)

text \<open>
  Claim C6, as the code has it. On either accumulator, when the smoothed candidate is
  closer than \<open>minDistance\<close> to the last committed point, \<^verbatim>\<open>addPoint\<close> commits nothing: the
  points of the stroke and the last committed point stay as they are. A sequence of raw
  points that are all closer than \<open>minDistance\<close> to the last committed point leaves a 3D
  line unchanged; it leaves the stroke of the 2D canvas unchanged provided the points
  already in the smoothing buffer are that close too, as they are right after
  \<^verbatim>\<open>startDrawing\<close>.
\<close>

theorem C6_jitter_gate:
  "(c_isDrawing c \<and> c_lastPoint c = Some l \<and>
    getDistance l (applySmoothing (push_point (pointBuffer c) p) l p) < minDistance \<longrightarrow>
      smoothedPoints (Canvas2D_drawTo c p) = smoothedPoints c \<and>
      c_lastPoint (Canvas2D_drawTo c p) = c_lastPoint c) \<and>
   (l_isDrawing line \<and> l_lastPoint line = Some lp \<and>
    distanceTo lp (NeonLine3D_interpolate lp v smoothingFactor) < minDistance \<longrightarrow>
      NeonLine3D_addPoint line v = line) \<and>
   (l_isDrawing line \<and> l_lastPoint line = Some lp \<and>
    list_all (\<lambda>v. distanceTo lp v < minDistance) vs \<longrightarrow>
      foldl NeonLine3D_addPoint line vs = line) \<and>
   (c_isDrawing c \<and> c_lastPoint c = Some l \<and>
    list_all (\<lambda>q. getDistance l q < minDistance) (pointBuffer c) \<and>
    list_all (\<lambda>p. getDistance l p < minDistance) ps \<longrightarrow>
      smoothedPoints (foldl Canvas2D_drawTo c ps) = smoothedPoints c \<and>
      c_lastPoint (foldl Canvas2D_drawTo c ps) = c_lastPoint c)"
proof (intro conjI impI)
  assume a: "c_isDrawing c \<and> c_lastPoint c = Some l \<and>
    getDistance l (applySmoothing (push_point (pointBuffer c) p) l p) < minDistance"
  then have "Canvas2D_drawTo c p = c\<lparr>pointBuffer := push_point (pointBuffer c) p\<rparr>"
    by (simp add: drawTo_open Let_def)
  then show "smoothedPoints (Canvas2D_drawTo c p) = smoothedPoints c"
    "c_lastPoint (Canvas2D_drawTo c p) = c_lastPoint c"
    by simp_all
next
  assume "l_isDrawing line \<and> l_lastPoint line = Some lp \<and>
    distanceTo lp (NeonLine3D_interpolate lp v smoothingFactor) < minDistance"
  then show "NeonLine3D_addPoint line v = line"
    by (simp add: addPoint_open NeonLine3D_interpolate_def Let_def)
next
  assume "l_isDrawing line \<and> l_lastPoint line = Some lp \<and>
    list_all (\<lambda>v. distanceTo lp v < minDistance) vs"
  then show "foldl NeonLine3D_addPoint line vs = line"
    by (intro addPoint_stationary [of line lp]) (simp_all add: list_all_iff)
next
  assume a: "c_isDrawing c \<and> c_lastPoint c = Some l \<and>
    list_all (\<lambda>q. getDistance l q < minDistance) (pointBuffer c) \<and>
    list_all (\<lambda>p. getDistance l p < minDistance) ps"
  then have "\<exists>buf. foldl Canvas2D_drawTo c ps = c\<lparr>pointBuffer := buf\<rparr>"
    by (intro drawTo_stationary [of c l]) (simp_all add: list_all_iff)
  then obtain buf where "foldl Canvas2D_drawTo c ps = c\<lparr>pointBuffer := buf\<rparr>" ..
  then show "smoothedPoints (foldl Canvas2D_drawTo c ps) = smoothedPoints c"
    "c_lastPoint (foldl Canvas2D_drawTo c ps) = c_lastPoint c"
    by simp_all
qed

subsection \<open>The accumulators on example strokes\<close>

lemma sqrt_less_bound: "0 \<le> m \<Longrightarrow> sqrt x < m \<longleftrightarrow> x < m\<^sup>2"
  using real_sqrt_less_iff [of x "m\<^sup>2"] by simp

lemma getDistance_lt_min:
  "getDistance a b < minDistance \<longleftrightarrow>
     (px b - px a) * (px b - px a) + (py b - py a) * (py b - py a) < 0.0001"
  unfolding getDistance_def Let_def minDistance_def
  using sqrt_less_bound
    [of "0.01" "(px b - px a) * (px b - px a) + (py b - py a) * (py b - py a)"]
  by (simp add: power2_eq_square)

lemma distanceTo_lt_min:
  "distanceTo a b < minDistance \<longleftrightarrow>
     (vx a - vx b) * (vx a - vx b) + (vy a - vy b) * (vy a - vy b) +
     (vz a - vz b) * (vz a - vz b) < 0.0001"
  unfolding distanceTo_def Let_def minDistance_def
  using sqrt_less_bound
    [of "0.01" "(vx a - vx b) * (vx a - vx b) + (vy a - vy b) * (vy a - vy b) +
       (vz a - vz b) * (vz a - vz b)"]
  by (simp add: power2_eq_square)

lemma pt_sel: "px (pt a b) = a" "py (pt a b) = b"
  by (simp_all add: pt_def)

lemma pt_fold: "\<lparr>px = a, py = b\<rparr> = pt a b"
  by (simp add: pt_def)

lemma pt_eq: "pt a b = pt a' b' \<longleftrightarrow> a = a' \<and> b = b'"
  by (simp add: pt_def)

lemma vec_sel: "vx (vec a b c) = a" "vy (vec a b c) = b" "vz (vec a b c) = c"
  by (simp_all add: vec_def)

lemma vec_fold: "\<lparr>vx = a, vy = b, vz = c\<rparr> = vec a b c"
  by (simp add: vec_def)

lemma vec_eq: "vec a b c = vec a' b' c' \<longleftrightarrow> a = a' \<and> b = b' \<and> c = c'"
  by (simp add: vec_def)

lemmas eval2D = run2D_def Canvas2D_init_def Canvas2D_startDrawing_def Canvas2D_stopDrawing_def
  Canvas2D_clear_def Canvas2D_drawTo_def push_point_def applySmoothing_def
  calculateMovingAverage_def Canvas2D_interpolate_def drawNeonLine_def bufferSize_def
  smoothingFactor_def getDistance_lt_min pt_sel pt_fold pt_eq Let_def

lemmas eval3D = run3D_def NeonLine3D_new_def NeonLine3D_startDrawing_def
  NeonLine3D_stopDrawing_def NeonLine3D_clear_def NeonLine3D_addPoint_def
  NeonLine3D_interpolate_def lerp_def updateGeometry_def smoothingFactor_def
  distanceTo_lt_min vec_sel vec_fold vec_eq Let_def

lemma run_start: "run2D [Start2D (pt 0 0)] =
  \<lparr>c_lastPoint = Some (pt 0 0), c_isDrawing = True, pointBuffer = [pt 0 0],
   smoothedPoints = [pt 0 0], rendered = []\<rparr>"
  by (simp add: eval2D)

lemma run_start_draw: "run2D [Start2D (pt 0 0), Draw2D (pt 100 0)] =
  \<lparr>c_lastPoint = Some (pt 35 0), c_isDrawing = True, pointBuffer = [pt 0 0, pt 100 0],
   smoothedPoints = [pt 0 0, pt 35 0], rendered = [[pt 0 0, pt 35 0]]\<rparr>"
  by (simp add: eval2D)

text \<open>
  The claim as stated fails on the 2D canvas when the buffer holds older, distant points:
  after a stroke from \<open>(0, 0)\<close> with the raw point \<open>(100, 0)\<close> the last committed point is
  \<open>(35, 0)\<close>; the raw point \<open>(35, 0)\<close>, at distance 0 from it, is averaged with the two
  buffered points and \<open>(42, 0)\<close> is committed.
\<close>

theorem C6_jitter_gate_counterexample:
  "c_isDrawing (run2D [Start2D (pt 0 0), Draw2D (pt 100 0)]) \<and>
   c_lastPoint (run2D [Start2D (pt 0 0), Draw2D (pt 100 0)]) = Some (pt 35 0) \<and>
   getDistance (pt 35 0) (pt 35 0) < minDistance \<and>
   smoothedPoints (run2D [Start2D (pt 0 0), Draw2D (pt 100 0)]) = [pt 0 0, pt 35 0] \<and>
   smoothedPoints (Canvas2D_drawTo (run2D [Start2D (pt 0 0), Draw2D (pt 100 0)]) (pt 35 0)) =
     [pt 0 0, pt 35 0, pt 42 0]"
  by (simp add: run_start_draw) (simp add: eval2D)

text \<open>
  The claim as stated fails for the 3D line: started at the origin and given the raw point
  \<open>(1, 0, 0)\<close> it commits \<open>(0.7, 0, 0)\<close>, where the specified pipeline gives \<open>(0.35, 0, 0)\<close>.
\<close>

theorem C2_point_pipeline_counterexample:
  "points (NeonLine3D_addPoint (NeonLine3D_startDrawing NeonLine3D_new (vec 0 0 0)) (vec 1 0 0)) =
     [vec 0 0 0, vec 0.7 0 0] \<and>
   spec_result3D (vec 0 0 0) [vec 0 0 0] (vec 1 0 0) = vec 0.35 0 0 \<and>
   vec 0.7 0 0 \<noteq> vec 0.35 0 0"
  by (simp add: eval3D spec_result3D_def spec_push_def spec_mean3D_def spec_lerp3D_def)

lemma run3D_start: "run3D [Start3D (vec 0 0 0)] =
  \<lparr>points = [vec 0 0 0], l_lastPoint = Some (vec 0 0 0), l_isDrawing = True,
   geometry = [vec 0 0 0]\<rparr>"
  by (simp add: eval3D)

theorem C2_point_pipeline_witness:
  "c_isDrawing (run2D [Start2D (pt 0 0)]) \<and>
   spec_result2D (pt 0 0) (pointBuffer (run2D [Start2D (pt 0 0)])) (pt 100 0) = pt 35 0 \<and>
   smoothedPoints (Canvas2D_drawTo (run2D [Start2D (pt 0 0)]) (pt 100 0)) = [pt 0 0, pt 35 0] \<and>
   c_lastPoint (Canvas2D_drawTo (run2D [Start2D (pt 0 0)]) (pt 100 0)) = Some (pt 35 0) \<and>
   l_isDrawing (run3D [Start3D (vec 0 0 0)]) \<and>
   l_lastPoint (run3D [Start3D (vec 0 0 0)]) = Some (vec 0 0 0) \<and>
   points (NeonLine3D_addPoint (run3D [Start3D (vec 0 0 0)]) (vec 1 0 0)) =
     [vec 0 0 0, vec 0.7 0 0]"
proof -
  let ?c = "run2D [Start2D (pt 0 0)]" and ?l = "run3D [Start3D (vec 0 0 0)]"
  have h2: "?c = run2D [Start2D (pt 0 0)] \<and> c_isDrawing ?c" by (simp add: run_start)
  have r: "spec_result2D (pt 0 0) (pointBuffer ?c) (pt 100 0) = pt 35 0"
    by (simp add: run_start spec_result2D_def spec_push_def spec_mean2D_def spec_lerp2D_def
        smoothingFactor_def pt_sel pt_fold)
  have far: "\<not> getDistance (pt 0 0) (pt 35 0) < minDistance"
    by (simp add: getDistance_lt_min pt_sel)
  have l: "c_lastPoint ?c = Some (pt 0 0)" "smoothedPoints ?c = [pt 0 0]"
    by (simp_all add: run_start)
  have h3: "l_isDrawing ?l \<and> l_lastPoint ?l = Some (vec 0 0 0)" by (simp add: run3D_start)
  have r3: "spec_lerp3D (vec 0 0 0) (vec 1 0 0) smoothingFactor = vec 0.7 0 0"
    by (simp add: spec_lerp3D_def smoothingFactor_def vec_sel vec_fold)
  have far3: "\<not> distanceTo (vec 0 0 0) (vec 0.7 0 0) < minDistance"
    by (simp add: distanceTo_lt_min vec_sel)
  have p3: "points ?l = [vec 0 0 0]" by (simp add: run3D_start)
  from C2_point_pipeline [of ?c "[Start2D (pt 0 0)]" "pt 100 0" ?l "vec 0 0 0" "vec 1 0 0"] h2 h3
  show ?thesis by (simp add: r far l r3 far3 p3)
qed

theorem C6_jitter_gate_witness:
  "c_isDrawing (run2D [Start2D (pt 0 0)]) \<and>
   c_lastPoint (run2D [Start2D (pt 0 0)]) = Some (pt 0 0) \<and>
   list_all (\<lambda>q. getDistance (pt 0 0) q < minDistance) (pointBuffer (run2D [Start2D (pt 0 0)])) \<and>
   list_all (\<lambda>p. getDistance (pt 0 0) p < minDistance) [pt 0.001 0, pt 0 0.002, pt 0.001 0.001] \<and>
   smoothedPoints
     (foldl Canvas2D_drawTo (run2D [Start2D (pt 0 0)]) [pt 0.001 0, pt 0 0.002, pt 0.001 0.001]) =
     [pt 0 0] \<and>
   l_isDrawing (run3D [Start3D (vec 0 0 0)]) \<and>
   l_lastPoint (run3D [Start3D (vec 0 0 0)]) = Some (vec 0 0 0) \<and>
   list_all (\<lambda>v. distanceTo (vec 0 0 0) v < minDistance) [vec 0.001 0 0, vec 0 0 0.002] \<and>
   foldl NeonLine3D_addPoint (run3D [Start3D (vec 0 0 0)]) [vec 0.001 0 0, vec 0 0 0.002] =
     run3D [Start3D (vec 0 0 0)]"
proof -
  let ?c = "run2D [Start2D (pt 0 0)]" and ?l = "run3D [Start3D (vec 0 0 0)]"
  let ?ps = "[pt 0.001 0, pt 0 0.002, pt 0.001 0.001]"
  let ?vs = "[vec 0.001 0 0, vec 0 0 0.002]"
  have h2: "c_isDrawing ?c" "c_lastPoint ?c = Some (pt 0 0)"
    "list_all (\<lambda>q. getDistance (pt 0 0) q < minDistance) (pointBuffer ?c)"
    "smoothedPoints ?c = [pt 0 0]"
    by (simp_all add: run_start getDistance_lt_min pt_sel)
  have ps: "list_all (\<lambda>p. getDistance (pt 0 0) p < minDistance) ?ps"
    by (simp add: getDistance_lt_min pt_sel)
  have h3: "l_isDrawing ?l" "l_lastPoint ?l = Some (vec 0 0 0)"
    by (simp_all add: run3D_start)
  have vs: "list_all (\<lambda>v. distanceTo (vec 0 0 0) v < minDistance) ?vs"
    by (simp add: distanceTo_lt_min vec_sel)
  from C6_jitter_gate [of ?c "pt 0 0" "pt 0.001 0" ?l "vec 0 0 0" "vec 0.001 0 0" ?vs ?ps] h2 ps h3 vs
  show ?thesis by simp
qed

lemma run_start_stop: "run2D [Start2D (pt 0 0), Stop2D] = Canvas2D_init"
  by (simp add: eval2D)

lemma run3D_start_stop: "run3D [Start3D (vec 0 0 0), Stop3D] =
  \<lparr>points = [vec 0 0 0], l_lastPoint = None, l_isDrawing = False, geometry = [vec 0 0 0]\<rparr>"
  by (simp add: eval3D)

theorem C8_out_of_sequence_noop_witness:
  "\<not> c_isDrawing (run2D [Start2D (pt 0 0), Stop2D]) \<and>
   Canvas2D_drawTo (run2D [Start2D (pt 0 0), Stop2D]) (pt 1 1) =
     run2D [Start2D (pt 0 0), Stop2D] \<and>
   Canvas2D_stopDrawing (run2D [Start2D (pt 0 0), Stop2D]) = run2D [Start2D (pt 0 0), Stop2D] \<and>
   \<not> l_isDrawing (run3D [Start3D (vec 0 0 0), Stop3D]) \<and>
   NeonLine3D_addPoint (run3D [Start3D (vec 0 0 0), Stop3D]) (vec 1 1 1) =
     run3D [Start3D (vec 0 0 0), Stop3D] \<and>
   NeonLine3D_stopDrawing (run3D [Start3D (vec 0 0 0), Stop3D]) =
     run3D [Start3D (vec 0 0 0), Stop3D] \<and>
   currentLine (Scene3D_new 1280 720) = None \<and>
   Scene3D_addPoint (Scene3D_new 1280 720) 1 1 1 = Scene3D_new 1280 720 \<and>
   Scene3D_stopDrawing (Scene3D_new 1280 720) = Scene3D_new 1280 720"
proof -
  have h: "\<not> c_isDrawing (run2D [Start2D (pt 0 0), Stop2D])"
    "\<not> l_isDrawing (run3D [Start3D (vec 0 0 0), Stop3D])"
    "currentLine (Scene3D_new 1280 720) = None"
    by (simp_all add: run_start_stop Canvas2D_init_def run3D_start_stop Scene3D_new_def)
  from C8_out_of_sequence_noop [of "[Start2D (pt 0 0), Stop2D]" "pt 1 1" Canvas2D_init
      "[Start3D (vec 0 0 0), Stop3D]" "vec 1 1 1" NeonLine3D_new "Scene3D_new 1280 720" 1 1 1] h
  show ?thesis by blast
qed

theorem C9_points_spaced_witness:
  "smoothedPoints (run2D [Start2D (pt 0 0), Draw2D (pt 100 0)]) = [pt 0 0, pt 35 0] \<and>
   spaced2D (smoothedPoints (run2D [Start2D (pt 0 0), Draw2D (pt 100 0)])) \<and>
   list_all spaced2D (rendered (run2D [Start2D (pt 0 0), Draw2D (pt 100 0)])) \<and>
   spaced3D (points (run3D [Start3D (vec 0 0 0), Add3D (vec 1 0 0)])) \<and>
   list_all (\<lambda>l. spaced3D (points l))
     (lines (runScene 1280 720 [StartS 0 0 0, AddS 1 0 0, StopS]))"
  using C9_points_spaced [of "[Start2D (pt 0 0), Draw2D (pt 100 0)]" "[Start3D (vec 0 0 0), Add3D (vec 1 0 0)]"
      1280 720 "[StartS 0 0 0, AddS 1 0 0, StopS]"]
  by (simp add: run_start_draw)

subsection \<open>The orchestrator never opens a 3D stroke\<close>

lemma closed3D_stopDrawing: "\<not> open3D sc \<Longrightarrow> Scene3D_stopDrawing sc = sc"
  by (simp add: open3D_def Scene3D_stopDrawing_def)

lemma closed3D_clear: "\<not> open3D (Scene3D_clear sc)"
  by (simp add: open3D_def Scene3D_clear_def)

lemma closed3D_stop_current:
  "\<not> open3D (scene3D app) \<Longrightarrow> \<not> open3D (scene3D (stop_current app))"
  by (simp add: stop_current_def closed3D_stopDrawing)

lemma closed3D_handle_drawing:
  assumes "\<not> open3D (scene3D app)"
    and "gesture gs = PINCH \<Longrightarrow> currentMode app = Mode2D"
    and "handle_drawing app gs tip = Inr app'"
  shows "\<not> open3D (scene3D app')"
proof (cases "gs_isDrawing gs \<and> gesture gs = PINCH")
  case True
  with assms(2) have m: "currentMode app = Mode2D" by simp
  let ?app2 = "if last_gesture_is app CLOSED_FIST
               then app\<lparr>scene3D := Scene3D_stopDrawing (scene3D app)\<rparr> else app"
  from assms(1) have "scene3D ?app2 = scene3D app" by (simp add: closed3D_stopDrawing)
  with assms(1,3) True m show ?thesis
    by (auto simp: handle_drawing_def Let_def split: option.splits if_splits)
next
  case False
  with assms(3) have "app' = stop_current app" by (auto simp: handle_drawing_def)
  with assms(1) show ?thesis by (simp add: closed3D_stop_current)
qed

lemma closed3D_updateDrawing:
  assumes "\<not> open3D (scene3D app)" "updateDrawing app gs handData = Inr app'"
  shows "\<not> open3D (scene3D app')"
proof (cases handData)
  case None
  with assms(2) have "app' = (stop_current app)\<lparr>currentMode := ModeNone\<rparr>"
    by (simp add: updateDrawing_def)
  with assms(1) show ?thesis by (simp add: closed3D_stop_current)
next
  case (Some h)
  let ?tip = "lm_at (landmarks h) 8"
  consider (spread) "gesture gs = SPREAD_FINGERS" | (fist) "gesture gs = CLOSED_FIST"
    | (pinch) "gesture gs = PINCH" | (opn) "gesture gs = OPEN_HAND" | (none) "gesture gs = NONE"
    by (cases "gesture gs") auto
  then show ?thesis
  proof cases
    case spread
    with assms Some show ?thesis
      by (auto simp: updateDrawing_def Let_def closed3D_clear split: if_splits)
  next
    case fist
    with assms(2) Some have "handle_drawing (app\<lparr>currentMode := Mode3D\<rparr>) gs ?tip = Inr app'"
      by (simp add: updateDrawing_def Let_def)
    with assms(1) fist show ?thesis
      by - (rule closed3D_handle_drawing [of "app\<lparr>currentMode := Mode3D\<rparr>" gs ?tip], simp_all)
  next
    case pinch
    with assms(2) Some have "handle_drawing (app\<lparr>currentMode := Mode2D\<rparr>) gs ?tip = Inr app'"
      by (simp add: updateDrawing_def Let_def)
    with assms(1) show ?thesis
      by - (rule closed3D_handle_drawing [of "app\<lparr>currentMode := Mode2D\<rparr>" gs ?tip], simp_all)
  next
    case opn
    with assms Some show ?thesis by (auto simp: updateDrawing_def Let_def)
  next
    case none
    with assms(2) Some have "handle_drawing app gs ?tip = Inr app'"
      by (simp add: updateDrawing_def Let_def)
    with assms(1) none show ?thesis
      by - (rule closed3D_handle_drawing [of app gs ?tip], simp_all)
  qed
qed

lemma closed3D_handleHandData:
  assumes "\<not> open3D (scene3D app)" "handleHandData app handData = Inr app'"
  shows "\<not> open3D (scene3D app')"
proof -
  from assms(2) obtain gs d' app1 where
    "updateDrawing (app\<lparr>detector := d'\<rparr>) gs handData = Inr app1"
    "app' = app1\<lparr>lastGestureState := Some gs\<rparr>"
    by (auto simp: handleHandData_def bindE_def split: sum.splits prod.splits)
  with assms(1) closed3D_updateDrawing [of "app\<lparr>detector := d'\<rparr>" gs handData app1]
  show ?thesis by simp
qed

lemma closed3D_run_frames:
  "\<not> open3D (scene3D app) \<Longrightarrow> \<not> open3D (scene3D (run_frames app frames))"
proof (induction frames arbitrary: app)
  case Nil
  then show ?case by simp
next
  case (Cons f frames)
  show ?case
  proof (cases "handleHandData app f")
    case (Inl e)
    with Cons show ?thesis by simp
  next
    case (Inr app')
    with Cons.prems have "\<not> open3D (scene3D app')" by (rule closed3D_handleHandData)
    with Cons.IH Inr show ?thesis by simp
  qed
qed

lemma closed3D_init: "\<not> open3D (scene3D (App_init w h))"
  by (simp add: App_init_def Scene3D_new_def open3D_def)

text \<open>
  Claim C1. After the orchestrator has processed any sequence of frames, each a hand
  observation or null, the 2D canvas and the 3D scene do not both have an open stroke. The
  scene in fact never has one: the branch of \<^verbatim>\<open>updateDrawing\<close> that starts or extends a 3D
  line sits under the test for the pinch gesture, which has set the mode to 2D.
\<close>

theorem C1_mode_exclusivity:
  "\<not> (c_isDrawing (canvas2D (run_frames (App_init w h) frames)) \<and>
      open3D (scene3D (run_frames (App_init w h) frames)))"
  using closed3D_run_frames [OF closed3D_init, of w h frames] by blast

text \<open>An exception of the callback can only come from the classifier.\<close>

lemma handle_drawing_total:
  "tip \<noteq> None \<Longrightarrow> \<exists>app'. handle_drawing app gs tip = Inr app'"
  by (cases tip) (simp_all add: handle_drawing_def Let_def)

lemma updateDrawing_total:
  assumes "\<And>h. handData = Some h \<Longrightarrow> 8 < length (landmarks h)"
  shows "\<exists>app'. updateDrawing app gs handData = Inr app'"
proof (cases handData)
  case None
  then show ?thesis by (simp add: updateDrawing_def)
next
  case (Some h)
  with assms have "lm_at (landmarks h) 8 \<noteq> None" by (simp add: lm_at_def)
  from handle_drawing_total [OF this] Some show ?thesis
    by (simp add: updateDrawing_def Let_def)
qed

lemma handleHandData_error:
  assumes "handleHandData app handData = Inl e"
  shows "detect (detector app) handData = Inl e"
proof (cases "detect (detector app) handData")
  case (Inl e')
  with assms show ?thesis by (simp add: handleHandData_def bindE_def)
next
  case (Inr r)
  obtain gs d' where r: "r = (gs, d')" by (cases r)
  have "8 < length (landmarks h)" if "handData = Some h" for h
  proof (rule ccontr)
    assume "\<not> 8 < length (landmarks h)"
    then have "length (landmarks h) < 21" by simp
    from detect_short [OF this, of "detector app"] Inr that show False by simp
  qed
  from updateDrawing_total [OF this, of handData "app\<lparr>detector := d'\<rparr>" gs]
  obtain app1 where "updateDrawing (app\<lparr>detector := d'\<rparr>) gs handData = Inr app1" by blast
  with assms Inr r show ?thesis by (simp add: handleHandData_def bindE_def)
qed

lemma frame_pinch:
  "handleHandData (App_init w h) (Some (axis_hand 0 0 0 0 0 0)) =
     Inr ((App_init w h)
       \<lparr>detector := updateHistory GestureDetector_init PINCH, currentMode := Mode2D,
        canvas2D := Canvas2D_startDrawing Canvas2D_init (normalizeToCanvas 0 0),
        lastGestureState :=
          Some (createState PINCH 1 True 0.5 (Some (no_distances\<lparr>d_pinch := Some 0\<rparr>)))\<rparr>)"
proof -
  have d: "detect GestureDetector_init (Some (axis_hand 0 0 0 0 0 0)) =
     Inr (createState PINCH 1 True 0.5 (Some (no_distances\<lparr>d_pinch := Some 0\<rparr>)),
          updateHistory GestureDetector_init PINCH)"
    by (simp add: detect_def detect_axis bindE_def Let_def)
  show ?thesis
    by (simp add: handleHandData_def App_init_def d bindE_def updateDrawing_def
        handle_drawing_def lm_at_axis_hand createState_def last_gesture_is_def
        starts_new_line_def lm3_def Let_def)
qed

theorem C1_mode_exclusivity_witness:
  "c_isDrawing (canvas2D (run_frames (App_init 1280 720) [Some (axis_hand 0 0 0 0 0 0)])) \<and>
   \<not> open3D (scene3D (run_frames (App_init 1280 720) [Some (axis_hand 0 0 0 0 0 0)]))"
proof -
  have "c_isDrawing (canvas2D (run_frames (App_init 1280 720) [Some (axis_hand 0 0 0 0 0 0)]))"
    by (simp add: frame_pinch Canvas2D_startDrawing_def)
  with C1_mode_exclusivity [of 1280 720 "[Some (axis_hand 0 0 0 0 0 0)]"] show ?thesis by blast
qed

end
